theory Spec2Isabelle
  imports Complex_Main
begin

section \<open>The presentation library as the generator sees it\<close>

text \<open>
  \<^verbatim>\<open>ppt_generator.py\<close> is a thin class around python-pptx. The class is embedded
  method by method; every method takes \<open>self\<close> and gives back the \<open>self\<close> it leaves
  behind together with its result, an exception being the left summand. A method that
  raises half way keeps the effects it had before the raise, as in Python.

  The library objects are modelled by what the generator writes into them: a slide is
  the list of its shapes, a text frame the list of its paragraphs, a paragraph the string
  and the font settings assigned to it (a line feed or a vertical tab inside the string
  of a paragraph is a line break within that paragraph). The exceptions are the Python
  classes the code and the library raise.
\<close>

datatype error =
    ValueError | IndexError | KeyError | AttributeError
  | OSError | PackageNotFoundError | UnidentifiedImageError

type_synonym color_tuple = "int \<times> int \<times> int"

datatype rgb_color = RGB int int int

definition channel_ok :: "int \<Rightarrow> bool" where
  "channel_ok v = (0 \<le> v \<and> v \<le> 255)"

text \<open>\<^verbatim>\<open>RGBColor(r, g, b)\<close>: the library raises ValueError unless the three values are
  integers in 0-255.\<close>

definition RGBColor :: "color_tuple \<Rightarrow> error + rgb_color" where
  "RGBColor c = (case c of (r, g, b) \<Rightarrow>
     if channel_ok r \<and> channel_ok g \<and> channel_ok b then Inr (RGB r g b)
     else Inl ValueError)"

text \<open>Lengths are English Metric Units: \<^verbatim>\<open>Pt(n)\<close> and \<^verbatim>\<open>Inches(x)\<close>.\<close>

definition Pt :: "int \<Rightarrow> int" where
  "Pt n = n * 12700"

definition Inches :: "rat \<Rightarrow> int" where
  "Inches x = \<lfloor>x * 914400\<rfloor>"

datatype align = CENTER

record text_paragraph =
  p_text :: string
  p_size :: "int option"
  p_color :: "rgb_color option"
  p_bold :: bool
  p_alignment :: "align option"
  p_level :: nat

definition empty_paragraph :: text_paragraph where
  "empty_paragraph =
     \<lparr>p_text = [], p_size = None, p_color = None, p_bold = False,
      p_alignment = None, p_level = 0\<rparr>"

datatype xl_chart_type = COLUMN_CLUSTERED | LINE | PIE

text \<open>A shape is a placeholder cloned from the layout (with its \<open>idx\<close>), a text box,
  a picture, or the graphic frame of a chart with its category labels and series.\<close>

datatype shape =
    Placeholder nat "text_paragraph list"
  | TextBox int int int int "text_paragraph list"
  | Picture string int int int
  | GraphicFrame xl_chart_type int int int int "string list" "(string \<times> int list) list"

text \<open>The background of a slide follows its layout until \<^verbatim>\<open>slide.background.fill\<close> is
  made a solid fill, which has a colour once one is assigned.\<close>

datatype fill_format = FollowLayout | SolidFill "rgb_color option"

record slide =
  layout_index :: nat
  shapes :: "shape list"
  background :: fill_format

text \<open>A slide layout is known by the \<open>idx\<close> values of the placeholders a new slide
  inherits from it; \<open>idx\<close> 0 is the title.\<close>

type_synonym slide_layout = "nat list"

record presentation =
  slide_layouts :: "slide_layout list"
  slides :: "slide list"

text \<open>\<^verbatim>\<open>Presentation()\<close> loads the library's built-in template: eleven layouts
  (Title Slide, Title and Content, Section Header, Two Content, Comparison, Title Only,
  Blank, Content with Caption, Picture with Caption, and the two vertical ones) and no
  slide.\<close>

definition default_presentation :: presentation where
  "default_presentation =
     \<lparr>slide_layouts =
        [[0, 1], [0, 1], [0, 1], [0, 1, 2], [0, 1, 2, 3, 4], [0], [],
         [0, 1, 2], [0, 1, 2], [0, 1], [0, 1]],
      slides = []\<rparr>"

text \<open>\<^verbatim>\<open>prs.slide_layouts[i]\<close> raises IndexError out of range.\<close>

definition layout_at :: "presentation \<Rightarrow> nat \<Rightarrow> error + slide_layout" where
  "layout_at prs i =
     (if i < length (slide_layouts prs) then Inr (slide_layouts prs ! i) else Inl IndexError)"

definition new_slide :: "nat \<Rightarrow> slide_layout \<Rightarrow> slide" where
  "new_slide i lay =
     \<lparr>layout_index = i, shapes = map (\<lambda>idx. Placeholder idx [empty_paragraph]) lay,
      background = FollowLayout\<rparr>"

fun ph_idxs :: "shape list \<Rightarrow> nat list" where
  "ph_idxs [] = []"
| "ph_idxs (Placeholder j ps # shs) = j # ph_idxs shs"
| "ph_idxs (sh # shs) = ph_idxs shs"

text \<open>\<^verbatim>\<open>slide.placeholders\<close>: its length, and the lookup by \<open>idx\<close> that raises KeyError.\<close>

definition placeholders :: "slide \<Rightarrow> nat list" where
  "placeholders s = ph_idxs (shapes s)"

definition has_placeholder :: "slide \<Rightarrow> nat \<Rightarrow> bool" where
  "has_placeholder s i = (i \<in> set (placeholders s))"

fun set_placeholder :: "nat \<Rightarrow> text_paragraph list \<Rightarrow> shape list \<Rightarrow> shape list" where
  "set_placeholder i ps [] = []"
| "set_placeholder i ps (Placeholder j old # shs) =
     (if j = i then Placeholder j ps # shs
      else Placeholder j old # set_placeholder i ps shs)"
| "set_placeholder i ps (sh # shs) = sh # set_placeholder i ps shs"

definition set_frame :: "slide \<Rightarrow> nat \<Rightarrow> text_paragraph list \<Rightarrow> slide" where
  "set_frame s i ps = s\<lparr>shapes := set_placeholder i ps (shapes s)\<rparr>"

definition add_shape :: "slide \<Rightarrow> shape \<Rightarrow> slide" where
  "add_shape s sh = s\<lparr>shapes := shapes s @ [sh]\<rparr>"

text \<open>Assigning \<^verbatim>\<open>.text\<close> to a shape or to its text frame drops the paragraphs there
  are and makes one paragraph, without settings of its own, of every line of the string, which
  the library splits at the line feeds.\<close>

fun split_lines :: "string \<Rightarrow> string list" where
  "split_lines [] = [[]]"
| "split_lines (c # cs) =
     (if c = CHR 0x0A then [] # split_lines cs
      else (case split_lines cs of [] \<Rightarrow> [[c]] | w # ws \<Rightarrow> (c # w) # ws))"

definition set_text :: "string \<Rightarrow> text_paragraph list" where
  "set_text t = map (\<lambda>line. empty_paragraph\<lparr>p_text := line\<rparr>) (split_lines t)"

text \<open>The text assigned and then the font settings the method gives
  \<^verbatim>\<open>text_frame.paragraphs[0]\<close>: only the first line of the text carries them.\<close>

definition styled ::
  "string \<Rightarrow> int \<Rightarrow> rgb_color \<Rightarrow> bool \<Rightarrow> align option \<Rightarrow> text_paragraph list" where
  "styled t sz col b al =
     (case set_text t of
        [] \<Rightarrow> []
      | p # rest \<Rightarrow>
          p\<lparr>p_size := Some sz, p_color := Some col, p_bold := b, p_alignment := al\<rparr> # rest)"

text \<open>The block every method starts with: \<^verbatim>\<open>slide.shapes.title\<close> is the placeholder
  of \<open>idx\<close> 0 or None, and assigning \<^verbatim>\<open>.text\<close> on None raises AttributeError.\<close>

definition set_title :: "slide \<Rightarrow> text_paragraph list \<Rightarrow> slide \<times> error option" where
  "set_title s ps =
     (if has_placeholder s 0 then (set_frame s 0 ps, None) else (s, Some AttributeError))"

definition then_do ::
  "slide \<times> error option \<Rightarrow> (slide \<Rightarrow> slide \<times> error option) \<Rightarrow> slide \<times> error option" where
  "then_do r f = (case r of (s, None) \<Rightarrow> f s | (s, Some e) \<Rightarrow> (s, Some e))"

section \<open>The generator\<close>

record PPTGenerator =
  presentation :: presentation
  title_font_size :: int
  subtitle_font_size :: int
  content_font_size :: int
  primary_color :: rgb_color
  accent_color :: rgb_color

text \<open>\<^verbatim>\<open>self.presentation.slides.add_slide(layout)\<close> puts the slide into the presentation
  at once; what the method writes into it afterwards, up to a raise, stays there.\<close>

definition finish :: "PPTGenerator \<Rightarrow> slide \<times> error option \<Rightarrow> PPTGenerator \<times> (error + slide)" where
  "finish self r = (case r of (s, err) \<Rightarrow>
     (self\<lparr>presentation := (presentation self)\<lparr>slides := slides (presentation self) @ [s]\<rparr>\<rparr>,
      case err of None \<Rightarrow> Inr s | Some e \<Rightarrow> Inl e))"

definition get_slide_count :: "PPTGenerator \<Rightarrow> PPTGenerator \<times> nat" where
  "get_slide_count self = (self, length (slides (presentation self)))"

definition add_title_slide ::
  "PPTGenerator \<Rightarrow> string \<Rightarrow> string \<Rightarrow> string \<Rightarrow> PPTGenerator \<times> (error + slide)" where
  "add_title_slide self title subtitle author =
     (case layout_at (presentation self) 0 of
        Inl e \<Rightarrow> (self, Inl e)
      | Inr slide_layout \<Rightarrow>
          finish self
            (then_do
               (set_title (new_slide 0 slide_layout)
                  (styled title (title_font_size self) (primary_color self) True None))
               (\<lambda>slide.
                  if length (placeholders slide) > 1 then
                    (if has_placeholder slide 1 then
                       (let full_subtitle =
                              (if author \<noteq> [] then
                                 subtitle @ [CHR 0x0A, CHR 0x0A] @ ''Presented by: '' @ author
                               else subtitle)
                        in if full_subtitle \<noteq> [] then
                             (set_frame slide 1
                                (styled full_subtitle (subtitle_font_size self)
                                   (accent_color self) False None), None)
                           else (slide, None))
                     else (slide, Some KeyError))
                  else (slide, None))))"

text \<open>\<^verbatim>\<open>str(n)\<close> of a non-negative integer, for the f-string of the numbered layout.\<close>

definition digit_char :: "nat \<Rightarrow> char" where
  "digit_char d = ''0123456789'' ! (d mod 10)"

function str_of_nat :: "nat \<Rightarrow> string" where
  "str_of_nat n = (if n < 10 then [digit_char n] else str_of_nat (n div 10) @ [digit_char n])"
  by pat_completeness auto
termination
  by (relation "measure id") auto

declare str_of_nat.simps [simp del]

text \<open>The loop over \<^verbatim>\<open>enumerate(content)\<close>: the first item goes into the paragraph that
  \<^verbatim>\<open>text_frame.clear()\<close> leaves, every later one into a paragraph added at the end.\<close>

fun fill_frame ::
  "(nat \<Rightarrow> string \<Rightarrow> text_paragraph \<Rightarrow> text_paragraph) \<Rightarrow> nat \<Rightarrow> string list \<Rightarrow>
   text_paragraph list \<Rightarrow> text_paragraph list" where
  "fill_frame f i [] ps = ps"
| "fill_frame f i (item # items) ps =
     fill_frame f (Suc i) items
       (if i = 0 then (case ps of [] \<Rightarrow> [] | p # rest \<Rightarrow> f i item p # rest)
        else ps @ [f i item empty_paragraph])"

definition clear :: "text_paragraph list \<Rightarrow> text_paragraph list" where
  "clear ps = [empty_paragraph]"

definition content_item :: "PPTGenerator \<Rightarrow> string \<Rightarrow> nat \<Rightarrow> string \<Rightarrow> text_paragraph \<Rightarrow> text_paragraph" where
  "content_item self layout_type i item p =
     (let p = p\<lparr>p_text := item, p_size := Some (content_font_size self),
                p_color := Some (RGB 64 64 64), p_level := 0\<rparr>
      in if layout_type = ''numbered'' then p\<lparr>p_text := str_of_nat (i + 1) @ ''. '' @ item\<rparr>
         else p)"

definition add_content_slide ::
  "PPTGenerator \<Rightarrow> string \<Rightarrow> string list \<Rightarrow> string \<Rightarrow> PPTGenerator \<times> (error + slide)" where
  "add_content_slide self title content layout_type =
     (case layout_at (presentation self) 1 of
        Inl e \<Rightarrow> (self, Inl e)
      | Inr slide_layout \<Rightarrow>
          finish self
            (then_do
               (set_title (new_slide 1 slide_layout)
                  (styled title (Pt 36) (primary_color self) True None))
               (\<lambda>slide.
                  if length (placeholders slide) > 1 then
                    (if has_placeholder slide 1 then
                       (set_frame slide 1
                          (fill_frame (content_item self layout_type) 0 content (clear [empty_paragraph])),
                        None)
                     else (slide, Some KeyError))
                  else (slide, None))))"

definition column_item :: "PPTGenerator \<Rightarrow> nat \<Rightarrow> string \<Rightarrow> text_paragraph \<Rightarrow> text_paragraph" where
  "column_item self i item p =
     p\<lparr>p_text := item, p_size := Some (content_font_size self),
       p_color := Some (RGB 64 64 64)\<rparr>"

definition add_two_column_slide ::
  "PPTGenerator \<Rightarrow> string \<Rightarrow> string list \<Rightarrow> string list \<Rightarrow> PPTGenerator \<times> (error + slide)" where
  "add_two_column_slide self title left_content right_content =
     (case layout_at (presentation self) 3 of
        Inl e \<Rightarrow> (self, Inl e)
      | Inr slide_layout \<Rightarrow>
          finish self
            (then_do
               (then_do
                  (set_title (new_slide 3 slide_layout)
                     (styled title (Pt 36) (primary_color self) True None))
                  (\<lambda>slide.
                     if length (placeholders slide) > 1 then
                       (if has_placeholder slide 1 then
                          (set_frame slide 1
                             (fill_frame (column_item self) 0 left_content (clear [empty_paragraph])), None)
                        else (slide, Some KeyError))
                     else (slide, None)))
               (\<lambda>slide.
                  if length (placeholders slide) > 2 then
                    (if has_placeholder slide 2 then
                       (set_frame slide 2
                          (fill_frame (column_item self) 0 right_content (clear [empty_paragraph])), None)
                     else (slide, Some KeyError))
                  else (slide, None))))"

section \<open>Files and paths\<close>

text \<open>
  The file system holds, under absolute path names, what the library tells apart when it
  opens a name: a presentation package; a package of another kind (a document, a
  template); a zip archive that is no package; a directory (one that holds no unpacked
  package); an image of a format the library takes (BMP, GIF, JPEG, PNG, TIFF, WMF); an
  image of another format; a file of any other kind. \<open>writable\<close> says where a file can
  be written (the directory above exists and permits it, and the name is not a
  directory's). A relative name is taken from the working directory, and two absolute
  names are two files: links and the names \<^verbatim>\<open>.\<close> and \<^verbatim>\<open>..\<close> inside a name handed to the
  system are not followed. \<^verbatim>\<open>os.path\<close> is the POSIX one.
\<close>

datatype fs_file =
    PptxFile presentation | PackageFile | ZipFile | Directory
  | ImageFile | OtherImageFile | OtherFile

record filesystem =
  files :: "string \<Rightarrow> fs_file option"
  cwd :: string
  writable :: "string \<Rightarrow> bool"

definition startswith :: "string \<Rightarrow> string \<Rightarrow> bool" where
  "startswith s pre = (take (length pre) s = pre)"

definition endswith :: "string \<Rightarrow> string \<Rightarrow> bool" where
  "endswith s suf = (length suf \<le> length s \<and> drop (length s - length suf) s = suf)"

definition isabs :: "string \<Rightarrow> bool" where
  "isabs path = startswith path ''/''"

text \<open>\<^verbatim>\<open>posixpath.join(a, b)\<close>.\<close>

definition path_join :: "string \<Rightarrow> string \<Rightarrow> string" where
  "path_join a b =
     (if startswith b ''/'' then b
      else if a = [] \<or> endswith a ''/'' then a @ b
      else a @ ''/'' @ b)"

text \<open>\<^verbatim>\<open>path.split('/')\<close> and \<^verbatim>\<open>'/'.join(comps)\<close>.\<close>

fun split_sep :: "string \<Rightarrow> string list" where
  "split_sep [] = [[]]"
| "split_sep (c # cs) =
     (if c = CHR ''/'' then [] # split_sep cs
      else (case split_sep cs of [] \<Rightarrow> [[c]] | w # ws \<Rightarrow> (c # w) # ws))"

fun join_sep :: "string list \<Rightarrow> string" where
  "join_sep [] = []"
| "join_sep [w] = w"
| "join_sep (w # ws) = w @ ''/'' @ join_sep ws"

definition initial_slashes :: "string \<Rightarrow> nat" where
  "initial_slashes path =
     (if startswith path ''/'' then
        (if startswith path ''//'' \<and> \<not> startswith path ''///'' then 2 else 1)
      else 0)"

definition norm_step :: "nat \<Rightarrow> string list \<Rightarrow> string \<Rightarrow> string list" where
  "norm_step init new_comps component =
     (if component = [] \<or> component = ''.'' then new_comps
      else if component \<noteq> ''..'' \<or> (init = 0 \<and> new_comps = [])
              \<or> (new_comps \<noteq> [] \<and> last new_comps = ''..'')
        then new_comps @ [component]
      else if new_comps \<noteq> [] then butlast new_comps
      else new_comps)"

definition normpath :: "string \<Rightarrow> string" where
  "normpath path =
     (if path = [] then ''.''
      else
        (let init = initial_slashes path;
             comps = foldl (norm_step init) [] (split_sep path);
             p = join_sep comps;
             p = (if init \<noteq> 0 then replicate init (CHR ''/'') @ p else p)
         in if p = [] then ''.'' else p))"

definition abspath :: "filesystem \<Rightarrow> string \<Rightarrow> string" where
  "abspath fs path = normpath (if \<not> isabs path then path_join (cwd fs) path else path)"

text \<open>The file a name handed to the system denotes.\<close>

definition resolve :: "filesystem \<Rightarrow> string \<Rightarrow> string" where
  "resolve fs path = (if isabs path then path else path_join (cwd fs) path)"

text \<open>\<^verbatim>\<open>os.path.exists\<close>: false for the empty name, else whether the name is that of
  a file.\<close>

definition exists_path :: "filesystem \<Rightarrow> string \<Rightarrow> bool" where
  "exists_path fs path = (path \<noteq> [] \<and> files fs (resolve fs path) \<noteq> None)"

text \<open>\<^verbatim>\<open>Presentation(pptx)\<close>: without an argument the built-in template; with one, the
  presentation stored under that name, layouts and slides. The library raises ValueError
  for a package whose main part is not a presentation, KeyError where it finds no
  \<^verbatim>\<open>[Content_Types].xml\<close> (a zip archive that is no package, a directory), and
  PackageNotFoundError for a name that is neither a directory nor a zip archive.\<close>

definition Presentation :: "filesystem \<Rightarrow> string option \<Rightarrow> error + presentation" where
  "Presentation fs pptx =
     (case pptx of
        None \<Rightarrow> Inr default_presentation
      | Some path \<Rightarrow>
          (case files fs (resolve fs path) of
             None \<Rightarrow> Inl PackageNotFoundError
           | Some (PptxFile prs) \<Rightarrow> Inr prs
           | Some PackageFile \<Rightarrow> Inl ValueError
           | Some ZipFile \<Rightarrow> Inl KeyError
           | Some Directory \<Rightarrow> Inl KeyError
           | Some ImageFile \<Rightarrow> Inl PackageNotFoundError
           | Some OtherImageFile \<Rightarrow> Inl PackageNotFoundError
           | Some OtherFile \<Rightarrow> Inl PackageNotFoundError))"

text \<open>\<^verbatim>\<open>prs.save(path)\<close> writes the presentation to the file, or raises where the file
  cannot be written; the presentation object stays as it is.\<close>

definition prs_save :: "presentation \<Rightarrow> filesystem \<Rightarrow> string \<Rightarrow> filesystem \<times> error option" where
  "prs_save prs fs path =
     (if writable fs (resolve fs path) then
        (fs\<lparr>files := (files fs)(resolve fs path \<mapsto> PptxFile prs)\<rparr>, None)
      else (fs, Some OSError))"

text \<open>\<^verbatim>\<open>shapes.add_picture(path, x, y, cx)\<close> reads the file and adds the picture. Opening
  a missing name or a directory raises OSError (FileNotFoundError, IsADirectoryError); an
  image of a format the library does not take raises ValueError; what the imaging library
  cannot read raises UnidentifiedImageError. A raise leaves the slide as it was.\<close>

definition add_picture ::
  "filesystem \<Rightarrow> slide \<Rightarrow> string \<Rightarrow> int \<Rightarrow> int \<Rightarrow> int \<Rightarrow> slide \<times> error option" where
  "add_picture fs s path x y cx =
     (case files fs (resolve fs path) of
        None \<Rightarrow> (s, Some OSError)
      | Some Directory \<Rightarrow> (s, Some OSError)
      | Some ImageFile \<Rightarrow> (add_shape s (Picture path x y cx), None)
      | Some OtherImageFile \<Rightarrow> (s, Some ValueError)
      | Some (PptxFile prs) \<Rightarrow> (s, Some UnidentifiedImageError)
      | Some PackageFile \<Rightarrow> (s, Some UnidentifiedImageError)
      | Some ZipFile \<Rightarrow> (s, Some UnidentifiedImageError)
      | Some OtherFile \<Rightarrow> (s, Some UnidentifiedImageError))"

section \<open>The generator, continued\<close>

definition PPTGenerator_init :: "filesystem \<Rightarrow> string option \<Rightarrow> error + PPTGenerator" where
  "PPTGenerator_init fs template_path =
     (case (case template_path of
              None \<Rightarrow> Presentation fs None
            | Some path \<Rightarrow>
                if path \<noteq> [] \<and> exists_path fs path then Presentation fs (Some path)
                else Presentation fs None) of
        Inl e \<Rightarrow> Inl e
      | Inr prs \<Rightarrow>
          Inr \<lparr>presentation = prs, title_font_size = Pt 44, subtitle_font_size = Pt 28,
               content_font_size = Pt 18, primary_color = RGB 31 73 125,
               accent_color = RGB 79 129 189\<rparr>)"

definition add_image_slide ::
  "filesystem \<Rightarrow> PPTGenerator \<Rightarrow> string \<Rightarrow> string \<Rightarrow> string \<Rightarrow> PPTGenerator \<times> (error + slide)" where
  "add_image_slide fs self title image_path caption =
     (case layout_at (presentation self) 6 of
        Inl e \<Rightarrow> (self, Inl e)
      | Inr slide_layout \<Rightarrow>
          finish self
            (let slide = add_shape (new_slide 6 slide_layout)
                           (TextBox (Inches 1) (Inches (1/2)) (Inches 8) (Inches 1)
                              (styled title (Pt 36) (primary_color self) True (Some CENTER)))
             in if exists_path fs image_path then
                  then_do (add_picture fs slide image_path (Inches 2) (Inches 2) (Inches 6))
                    (\<lambda>slide.
                       if caption \<noteq> [] then
                         (add_shape slide
                            (TextBox (Inches 1) (Inches (13/2)) (Inches 8) (Inches (1/2))
                               (styled caption (Pt 14) (RGB 96 96 96) False (Some CENTER))),
                          None)
                       else (slide, None))
                else (slide, None)))"

text \<open>The \<^verbatim>\<open>chart_data\<close> dictionary: both keys are read with \<^verbatim>\<open>.get(key, [])\<close>, the keys
  of a series with \<^verbatim>\<open>series["name"]\<close> and \<^verbatim>\<open>series["values"]\<close>, which raise KeyError
  when the key is missing.\<close>

record series_dict =
  sd_name :: "string option"
  sd_values :: "int list option"

record chart_data_dict =
  cd_categories :: "string list option"
  cd_series :: "series_dict list option"

definition get_or :: "'a option \<Rightarrow> 'a \<Rightarrow> 'a" where
  "get_or v d = (case v of None \<Rightarrow> d | Some x \<Rightarrow> x)"

text \<open>\<^verbatim>\<open>CategoryChartData.add_series(name, values)\<close> stores the series as given: the
  library compares no length with the categories, neither here nor in
  \<^verbatim>\<open>shapes.add_chart\<close>.\<close>

fun add_all_series ::
  "series_dict list \<Rightarrow> (string \<times> int list) list \<Rightarrow> error + (string \<times> int list) list" where
  "add_all_series [] acc = Inr acc"
| "add_all_series (series # rest) acc =
     (case sd_name series of
        None \<Rightarrow> Inl KeyError
      | Some n \<Rightarrow>
          (case sd_values series of
             None \<Rightarrow> Inl KeyError
           | Some vs \<Rightarrow> add_all_series rest (acc @ [(n, vs)])))"

definition chart_type_map :: "string \<Rightarrow> xl_chart_type option" where
  "chart_type_map =
     map_of [(''column'', COLUMN_CLUSTERED), (''line'', LINE), (''pie'', PIE)]"

text \<open>\<^verbatim>\<open>shapes.add_chart(kind, x, y, cx, cy, chart_data)\<close> writes the chart before it
  adds the graphic frame, so a raise leaves the slide as it was. A pie chart is written
  from the first series alone, \<^verbatim>\<open>chart_data[0]\<close>, which raises IndexError when there is
  no series; the other kinds are written from every series. Writing a series needs the
  reference to the categories, and the library raises ValueError ("chart data contains no
  categories") when there is none.\<close>

definition add_chart ::
  "slide \<Rightarrow> xl_chart_type \<Rightarrow> int \<Rightarrow> int \<Rightarrow> int \<Rightarrow> int \<Rightarrow> string list \<Rightarrow>
   (string \<times> int list) list \<Rightarrow> slide \<times> error option" where
  "add_chart s kind x y cx cy cats sers =
     (if kind = PIE \<and> sers = [] then (s, Some IndexError)
      else if sers \<noteq> [] \<and> cats = [] then (s, Some ValueError)
      else
        (add_shape s
           (GraphicFrame kind x y cx cy cats (if kind = PIE then take 1 sers else sers)),
         None))"

definition add_chart_slide ::
  "PPTGenerator \<Rightarrow> string \<Rightarrow> chart_data_dict \<Rightarrow> string \<Rightarrow> PPTGenerator \<times> (error + slide)" where
  "add_chart_slide self title chart_data chart_type =
     (case layout_at (presentation self) 5 of
        Inl e \<Rightarrow> (self, Inl e)
      | Inr slide_layout \<Rightarrow>
          finish self
            (then_do
               (set_title (new_slide 5 slide_layout)
                  (styled title (Pt 36) (primary_color self) True None))
               (\<lambda>slide.
                  (case add_all_series (get_or (cd_series chart_data) []) [] of
                     Inl e \<Rightarrow> (slide, Some e)
                   | Inr sers \<Rightarrow>
                       add_chart slide
                         (get_or (chart_type_map chart_type) COLUMN_CLUSTERED)
                         (Inches 2) (Inches 2) (Inches 6) (Inches (9/2))
                         (get_or (cd_categories chart_data) []) sers))))"

text \<open>\<^verbatim>\<open>if background_color:\<close> holds for every tuple of three values. \<^verbatim>\<open>fill.solid()\<close>
  has run when \<^verbatim>\<open>RGBColor(*background_color)\<close> raises: the slide then keeps a solid
  fill that has no colour.\<close>

definition add_section_slide ::
  "PPTGenerator \<Rightarrow> string \<Rightarrow> color_tuple option \<Rightarrow> PPTGenerator \<times> (error + slide)" where
  "add_section_slide self section_title background_color =
     (case layout_at (presentation self) 2 of
        Inl e \<Rightarrow> (self, Inl e)
      | Inr slide_layout \<Rightarrow>
          finish self
            (then_do
               (set_title (new_slide 2 slide_layout)
                  (styled section_title (Pt 54) (RGB 255 255 255) True (Some CENTER)))
               (\<lambda>slide.
                  (case background_color of
                     None \<Rightarrow> (slide, None)
                   | Some c \<Rightarrow>
                       (let slide = slide\<lparr>background := SolidFill None\<rparr>
                        in (case RGBColor c of
                              Inl e \<Rightarrow> (slide, Some e)
                            | Inr rgb \<Rightarrow>
                                (slide\<lparr>background := SolidFill (Some rgb)\<rparr>, None)))))))"

definition save ::
  "PPTGenerator \<Rightarrow> filesystem \<Rightarrow> string \<Rightarrow> (PPTGenerator \<times> filesystem) \<times> (error + string)" where
  "save self fs filename =
     (let filename = (if \<not> endswith filename ''.pptx'' then filename @ ''.pptx'' else filename);
          full_path = abspath fs filename
      in (case prs_save (presentation self) fs full_path of
            (fs', None) \<Rightarrow> ((self, fs'), Inr full_path)
          | (fs', Some e) \<Rightarrow> ((self, fs'), Inl e)))"

definition set_theme_colors ::
  "PPTGenerator \<Rightarrow> color_tuple \<Rightarrow> color_tuple \<Rightarrow> PPTGenerator \<times> (error + unit)" where
  "set_theme_colors self primary accent =
     (case RGBColor primary of
        Inl e \<Rightarrow> (self, Inl e)
      | Inr p \<Rightarrow>
          (let self = self\<lparr>primary_color := p\<rparr>
           in (case RGBColor accent of
                 Inl e \<Rightarrow> (self, Inl e)
               | Inr a \<Rightarrow> (self\<lparr>accent_color := a\<rparr>, Inr ()))))"

section \<open>Sequences of calls\<close>

datatype add_call =
    TitleSlide string string string
  | ContentSlide string "string list" string
  | TwoColumnSlide string "string list" "string list"
  | ImageSlide string string string
  | ChartSlide string chart_data_dict string
  | SectionSlide string "color_tuple option"

fun call :: "filesystem \<Rightarrow> PPTGenerator \<Rightarrow> add_call \<Rightarrow> PPTGenerator \<times> (error + slide)" where
  "call fs self (TitleSlide t s a) = add_title_slide self t s a"
| "call fs self (ContentSlide t c l) = add_content_slide self t c l"
| "call fs self (TwoColumnSlide t l r) = add_two_column_slide self t l r"
| "call fs self (ImageSlide t p c) = add_image_slide fs self t p c"
| "call fs self (ChartSlide t d k) = add_chart_slide self t d k"
| "call fs self (SectionSlide t b) = add_section_slide self t b"

text \<open>A caller that makes the calls one after the other and keeps each call's result,
  going on after an exception.\<close>

fun calls ::
  "filesystem \<Rightarrow> PPTGenerator \<Rightarrow> add_call list \<Rightarrow> PPTGenerator \<times> (error + slide) list" where
  "calls fs self [] = (self, [])"
| "calls fs self (c # cs) =
     (case call fs self c of
        (self', r) \<Rightarrow> (case calls fs self' cs of (self'', rs) \<Rightarrow> (self'', r # rs)))"

fun succeeded :: "(error + 'a) list \<Rightarrow> bool" where
  "succeeded [] = True"
| "succeeded (Inl e # rs) = False"
| "succeeded (Inr v # rs) = succeeded rs"

section \<open>A concrete setting\<close>

text \<open>A file system without files, where everything can be written, and the generator
  \<^verbatim>\<open>PPTGenerator()\<close> builds.\<close>

definition empty_fs :: filesystem where
  "empty_fs = \<lparr>files = (\<lambda>p. None), cwd = ''/home/user'', writable = (\<lambda>p. True)\<rparr>"

definition blank_generator :: PPTGenerator where
  "blank_generator =
     \<lparr>presentation = default_presentation, title_font_size = Pt 44,
      subtitle_font_size = Pt 28, content_font_size = Pt 18,
      primary_color = RGB 31 73 125, accent_color = RGB 79 129 189\<rparr>"

definition quarters :: chart_data_dict where
  "quarters =
     \<lparr>cd_categories = Some [''Q1'', ''Q2''],
      cd_series = Some [\<lparr>sd_name = Some ''Sales'', sd_values = Some [1, 2, 3]\<rparr>]\<rparr>"

text \<open>A dataset without categories whose one series has no values: all lengths agree.\<close>

definition unlabelled :: chart_data_dict where
  "unlabelled =
     \<lparr>cd_categories = Some [],
      cd_series = Some [\<lparr>sd_name = Some ''Sales'', sd_values = Some []\<rparr>]\<rparr>"

definition six_calls :: "add_call list" where
  "six_calls =
     [TitleSlide ''Deck'' ''Sub'' ''Ann'',
      ContentSlide ''Steps'' [''A'', ''B''] ''numbered'',
      TwoColumnSlide ''Both'' [''l''] [''r'', ''s''],
      ImageSlide ''Logo'' ''logo.png'' ''the logo'',
      ChartSlide ''Sales'' quarters ''bar'',
      SectionSlide ''Part'' (Some (31, 73, 125))]"

section \<open>Reading a slide\<close>

text \<open>The charts on a slide: kind, category labels and series of each graphic frame.\<close>

fun charts :: "shape list \<Rightarrow> (xl_chart_type \<times> string list \<times> (string \<times> int list) list) list" where
  "charts [] = []"
| "charts (GraphicFrame k x y cx cy cats sers # shs) = (k, cats, sers) # charts shs"
| "charts (sh # shs) = charts shs"

text \<open>The \<^verbatim>\<open>series\<close> list of dictionaries that carries the given names and values.\<close>

definition series_dicts :: "(string \<times> int list) list \<Rightarrow> series_dict list" where
  "series_dicts sers = map (\<lambda>(n, vs). \<lparr>sd_name = Some n, sd_values = Some vs\<rparr>) sers"

text \<open>The name \<open>save\<close> gives the file: the extension is added unless the name ends
  with it. And the number of slides of the presentation stored under a path.\<close>

definition pptx_name :: "string \<Rightarrow> string" where
  "pptx_name filename = (if \<not> endswith filename ''.pptx'' then filename @ ''.pptx'' else filename)"

definition saved_slide_count :: "filesystem \<Rightarrow> string \<Rightarrow> nat option" where
  "saved_slide_count fs path =
     (case files fs path of Some (PptxFile prs) \<Rightarrow> Some (length (slides prs)) | _ \<Rightarrow> None)"

text \<open>The generator after the six calls, and a file system where nothing can be
  written.\<close>

definition six_slide_generator :: PPTGenerator where
  "six_slide_generator = fst (calls empty_fs blank_generator six_calls)"

definition readonly_fs :: filesystem where
  "readonly_fs = empty_fs\<lparr>writable := (\<lambda>p. False)\<rparr>"

text \<open>The text frame of the placeholder with a given \<open>idx\<close>, the text boxes and the
  pictures of a slide.\<close>

fun frame :: "shape list \<Rightarrow> nat \<Rightarrow> text_paragraph list" where
  "frame [] i = []"
| "frame (Placeholder j ps # shs) i = (if j = i then ps else frame shs i)"
| "frame (sh # shs) i = frame shs i"

fun text_boxes :: "shape list \<Rightarrow> text_paragraph list list" where
  "text_boxes [] = []"
| "text_boxes (TextBox x y cx cy ps # shs) = ps # text_boxes shs"
| "text_boxes (sh # shs) = text_boxes shs"

fun pictures :: "shape list \<Rightarrow> string list" where
  "pictures [] = []"
| "pictures (Picture path x y cx # shs) = path # pictures shs"
| "pictures (sh # shs) = pictures shs"

text \<open>Where a call puts its title: into a text box on an image slide, into the title
  placeholder on every other slide.\<close>

fun title_of :: "add_call \<Rightarrow> slide \<Rightarrow> text_paragraph list" where
  "title_of (ImageSlide t p c) s = concat (take 1 (text_boxes (shapes s)))"
| "title_of c s = frame (shapes s) 0"

fun themed :: "add_call \<Rightarrow> bool" where
  "themed (SectionSlide t b) = False"
| "themed c = True"

text \<open>The numbered form of a list of items, as the f-string writes it.\<close>

definition numbered :: "string list \<Rightarrow> string list" where
  "numbered content = map (\<lambda>(i, item). str_of_nat (i + 1) @ ''. '' @ item) (enumerate 0 content)"

text \<open>A generator with one title slide, before and after new theme colours.\<close>

definition one_slide_generator :: PPTGenerator where
  "one_slide_generator = fst (add_title_slide blank_generator ''Old'' ''Sub'' [])"

definition red_generator :: PPTGenerator where
  "red_generator = fst (set_theme_colors one_slide_generator (255, 0, 0) (0, 0, 255))"

section \<open>Slide count\<close>

lemma finish_count:
  "length (slides (presentation (fst (finish self r)))) = Suc (length (slides (presentation self)))"
  by (cases r) (simp add: finish_def)

lemma finish_result:
  "snd (finish self r) = (case snd r of None \<Rightarrow> Inr (fst r) | Some e \<Rightarrow> Inl e)"
  by (cases r) (simp add: finish_def split: option.splits)

lemma call_count:
  "snd (call fs self c) = Inr s \<Longrightarrow>
   length (slides (presentation (fst (call fs self c)))) =
     Suc (length (slides (presentation self)))"
  by (cases c)
     (auto simp: add_title_slide_def add_content_slide_def add_two_column_slide_def
        add_image_slide_def add_chart_slide_def add_section_slide_def finish_count
        split: sum.splits)

lemma calls_count:
  "succeeded (snd (calls fs self cs)) \<Longrightarrow>
   length (slides (presentation (fst (calls fs self cs)))) =
     length (slides (presentation self)) + length cs"
proof (induction cs arbitrary: self)
  case Nil
  then show ?case by simp
next
  case (Cons c cs)
  obtain self' r where c: "call fs self c = (self', r)"
    by (cases "call fs self c")
  obtain self'' rs where cs: "calls fs self' cs = (self'', rs)"
    by (cases "calls fs self' cs")
  from Cons.prems c cs have ok: "succeeded (r # rs)"
    by simp
  then obtain s where r: "r = Inr s"
    by (cases r) simp_all
  from ok r cs have "succeeded (snd (calls fs self' cs))"
    by simp
  then have "length (slides (presentation (fst (calls fs self' cs)))) =
      length (slides (presentation self')) + length cs"
    by (rule Cons.IH)
  moreover from call_count [of fs self c s] c r
  have "length (slides (presentation self')) = Suc (length (slides (presentation self)))"
    by simp
  ultimately show ?case
    using c cs by simp
qed

lemma init_blank:
  "PPTGenerator_init fs None = Inr self \<Longrightarrow> slides (presentation self) = []"
  by (auto simp: PPTGenerator_init_def Presentation_def default_presentation_def)

lemma init_None: "PPTGenerator_init fs None = Inr blank_generator"
  by (simp add: PPTGenerator_init_def Presentation_def blank_generator_def)

lemmas add_defs =
  add_title_slide_def add_content_slide_def add_two_column_slide_def
  add_image_slide_def add_chart_slide_def add_section_slide_def

lemmas slide_defs =
  layout_at_def finish_def then_do_def set_title_def has_placeholder_def placeholders_def
  new_slide_def set_frame_def add_shape_def get_or_def

lemma six_calls_succeeded: "succeeded (snd (calls empty_fs blank_generator six_calls))"
  by (simp add: six_calls_def add_defs slide_defs blank_generator_def
      default_presentation_def exists_path_def empty_fs_def quarters_def RGBColor_def
      channel_ok_def add_chart_def chart_type_map_def Let_def)

text \<open>
  C1. After a sequence of add calls of any kinds that all succeed, the count that
  \<open>get_slide_count\<close> returns has grown by the number of calls, so it is that number
  on the generator \<^verbatim>\<open>PPTGenerator()\<close> builds; \<open>get_slide_count\<close> leaves the generator as
  it is.
\<close>

theorem slide_count_after_calls:
  "succeeded (snd (calls fs self cs)) \<Longrightarrow>
   snd (get_slide_count (fst (calls fs self cs))) = snd (get_slide_count self) + length cs
   \<and> fst (get_slide_count (fst (calls fs self cs))) = fst (calls fs self cs)
   \<and> (PPTGenerator_init fs None = Inr self \<longrightarrow>
        snd (get_slide_count (fst (calls fs self cs))) = length cs)"
  using calls_count [of fs self cs] init_blank [of fs self]
  by (simp add: get_slide_count_def)

theorem slide_count_after_calls_witness:
  "succeeded (snd (calls empty_fs blank_generator six_calls))
   \<and> PPTGenerator_init empty_fs None = Inr blank_generator
   \<and> snd (get_slide_count (fst (calls empty_fs blank_generator six_calls))) = 6
   \<and> fst (get_slide_count (fst (calls empty_fs blank_generator six_calls))) =
       fst (calls empty_fs blank_generator six_calls)"
  using slide_count_after_calls [OF six_calls_succeeded] six_calls_succeeded
    init_None [of empty_fs]
  by (simp add: six_calls_def)

section \<open>Construction\<close>

text \<open>
  C9. A template path that is not the name of an existing file raises nothing: the
  constructor builds what it builds without a template, the blank presentation with no
  slide.
\<close>

theorem init_missing_template:
  "\<not> exists_path fs path \<Longrightarrow>
   PPTGenerator_init fs (Some path) = PPTGenerator_init fs None
   \<and> PPTGenerator_init fs (Some path) = Inr blank_generator
   \<and> snd (get_slide_count blank_generator) = 0"
  by (simp add: PPTGenerator_init_def Presentation_def blank_generator_def
      get_slide_count_def default_presentation_def)

theorem init_missing_template_witness:
  "\<not> exists_path empty_fs ''corporate.pptx''
   \<and> PPTGenerator_init empty_fs (Some ''corporate.pptx'') = PPTGenerator_init empty_fs None
   \<and> PPTGenerator_init empty_fs (Some ''corporate.pptx'') = Inr blank_generator"
proof -
  have h: "\<not> exists_path empty_fs ''corporate.pptx''"
    by (simp add: exists_path_def empty_fs_def)
  from init_missing_template [OF h] h show ?thesis
    by (simp add: init_None)
qed

section \<open>Theme colours\<close>

text \<open>
  C3. \<open>set_theme_colors\<close> raises at the call when one of the six channel values lies
  outside 0-255 (the ValueError of the library's colour constructor is the one failure
  there is for a colour), and with all six inside it succeeds and both colours of the
  generator are the given ones.
\<close>

theorem set_theme_colors_range:
  "snd (set_theme_colors self (r, g, b) (r', g', b')) =
     (if set [r, g, b, r', g', b'] \<subseteq> {0..255} then Inr () else Inl ValueError)
   \<and> (set [r, g, b, r', g', b'] \<subseteq> {0..255} \<longrightarrow>
        fst (set_theme_colors self (r, g, b) (r', g', b')) =
          self\<lparr>primary_color := RGB r g b, accent_color := RGB r' g' b'\<rparr>)"
  by (auto simp: set_theme_colors_def RGBColor_def channel_ok_def)

theorem set_theme_colors_range_witness:
  "snd (set_theme_colors blank_generator (256, 0, 0) (0, 0, 0)) = Inl ValueError
   \<and> snd (set_theme_colors blank_generator (0, 0, 0) (0, 0, 256)) = Inl ValueError
   \<and> set_theme_colors blank_generator (255, 0, 0) (0, 0, 255) =
       (blank_generator\<lparr>primary_color := RGB 255 0 0, accent_color := RGB 0 0 255\<rparr>, Inr ())"
  using set_theme_colors_range [of blank_generator 256 0 0 0 0 0]
    set_theme_colors_range [of blank_generator 0 0 0 0 0 256]
    set_theme_colors_range [of blank_generator 255 0 0 0 0 255]
  by (simp add: prod_eq_iff)

section \<open>Charts\<close>

lemma add_all_series_dicts: "add_all_series (series_dicts sers) acc = Inr (acc @ sers)"
  by (induction sers arbitrary: acc) (auto simp: series_dicts_def)

lemma ph_idxs_new: "ph_idxs (map (\<lambda>idx. Placeholder idx [empty_paragraph]) lay) = lay"
  by (induction lay) auto

lemma placeholders_new [simp]: "placeholders (new_slide i lay) = lay"
  by (simp add: placeholders_def new_slide_def ph_idxs_new)

lemma ph_idxs_set [simp]: "ph_idxs (set_placeholder i ps shs) = ph_idxs shs"
  by (induction i ps shs rule: set_placeholder.induct) auto

lemma placeholders_set_frame [simp]: "placeholders (set_frame s i ps) = placeholders s"
  by (simp add: placeholders_def set_frame_def)

lemma charts_set [simp]: "charts (set_placeholder i ps shs) = charts shs"
  by (induction i ps shs rule: set_placeholder.induct) auto

lemma charts_new [simp]: "charts (shapes (new_slide i lay)) = []"
  by (induction lay) (auto simp: new_slide_def)

lemma charts_append [simp]: "charts (xs @ ys) = charts xs @ charts ys"
  by (induction xs rule: charts.induct) auto



text \<open>What \<open>add_chart_slide\<close> comes to for series that all have a name and values, on a
  chart layout with a title placeholder.\<close>

lemma add_chart_slide_eq:
  assumes "layout_at (presentation self) 5 = Inr lay" and "0 \<in> set lay"
  shows "add_chart_slide self title
           \<lparr>cd_categories = Some cats, cd_series = Some (series_dicts sers)\<rparr> chart_type =
         finish self
           (add_chart
              (set_frame (new_slide 5 lay) 0
                 (styled title (Pt 36) (primary_color self) True None))
              (get_or (chart_type_map chart_type) COLUMN_CLUSTERED)
              (Inches 2) (Inches 2) (Inches 6) (Inches (9/2)) cats sers)"
  using assms
  by (simp add: add_chart_slide_def add_all_series_dicts then_do_def set_title_def
      has_placeholder_def get_or_def)

lemma finish_ok:
  "finish self (s, None) =
     (self\<lparr>presentation :=
         (presentation self)\<lparr>slides := slides (presentation self) @ [s]\<rparr>\<rparr>, Inr s)"
  by (simp add: finish_def)

lemma add_chart_slide_ok:
  assumes "layout_at (presentation self) 5 = Inr lay" and "0 \<in> set lay"
    and "cats \<noteq> [] \<or> sers = []"
    and "get_or (chart_type_map chart_type) COLUMN_CLUSTERED = PIE \<longrightarrow> sers \<noteq> []"
  shows "\<exists>s. add_chart_slide self title
                \<lparr>cd_categories = Some cats, cd_series = Some (series_dicts sers)\<rparr>
                chart_type =
              (self\<lparr>presentation :=
                  (presentation self)\<lparr>slides := slides (presentation self) @ [s]\<rparr>\<rparr>, Inr s)
           \<and> charts (shapes s) =
               [(get_or (chart_type_map chart_type) COLUMN_CLUSTERED, cats,
                 if get_or (chart_type_map chart_type) COLUMN_CLUSTERED = PIE
                 then take 1 sers else sers)]"
proof -
  let ?kind = "get_or (chart_type_map chart_type) COLUMN_CLUSTERED"
  let ?t = "set_frame (new_slide 5 lay) 0 (styled title (Pt 36) (primary_color self) True None)"
  let ?s = "add_shape ?t
      (GraphicFrame ?kind (Inches 2) (Inches 2) (Inches 6) (Inches (9/2)) cats
         (if ?kind = PIE then take 1 sers else sers))"
  have "add_chart ?t ?kind (Inches 2) (Inches 2) (Inches 6) (Inches (9/2)) cats sers =
      (?s, None)"
    using assms(3,4) by (auto simp: add_chart_def)
  then have "add_chart_slide self title
       \<lparr>cd_categories = Some cats, cd_series = Some (series_dicts sers)\<rparr> chart_type =
      (self\<lparr>presentation :=
          (presentation self)\<lparr>slides := slides (presentation self) @ [?s]\<rparr>\<rparr>, Inr ?s)"
    by (simp add: add_chart_slide_eq [OF assms(1,2)] finish_ok)
  moreover have "charts (shapes ?s) =
      [(?kind, cats, if ?kind = PIE then take 1 sers else sers)]"
    by (simp add: add_shape_def set_frame_def)
  ultimately show ?thesis
    by blast
qed

lemma add_chart_slide_failed:
  assumes "layout_at (presentation self) 5 = Inr lay" and "0 \<in> set lay"
  shows "snd (add_chart_slide self title
                \<lparr>cd_categories = Some cats, cd_series = Some (series_dicts sers)\<rparr>
                chart_type) =
         (if get_or (chart_type_map chart_type) COLUMN_CLUSTERED = PIE \<and> sers = []
          then Inl IndexError
          else if sers \<noteq> [] \<and> cats = [] then Inl ValueError
          else snd (add_chart_slide self title
                \<lparr>cd_categories = Some cats, cd_series = Some (series_dicts sers)\<rparr>
                chart_type))"
  by (simp add: add_chart_slide_eq [OF assms] add_chart_def finish_def)

lemma quarters_dicts:
  "quarters =
     \<lparr>cd_categories = Some [''Q1'', ''Q2''],
      cd_series = Some (series_dicts [(''Sales'', [1, 2, 3])])\<rparr>"
  by (simp add: quarters_def series_dicts_def)

lemma blank_layout_5: "layout_at (presentation blank_generator) 5 = Inr [0]"
  by (simp add: layout_at_def blank_generator_def default_presentation_def)



section \<open>Paths\<close>

lemma endswith_append: "endswith (a @ s) s"
  by (simp add: endswith_def)

lemma endswith_iff: "endswith p s \<longleftrightarrow> (\<exists>q. p = q @ s)"
proof
  assume "endswith p s"
  then have "p = take (length p - length s) p @ s"
    by (metis append_take_drop_id endswith_def)
  then show "\<exists>q. p = q @ s" ..
next
  assume "\<exists>q. p = q @ s"
  then show "endswith p s" by (auto simp: endswith_append)
qed

lemma endswith_prepend: "endswith p s \<Longrightarrow> endswith (a @ p) s"
  by (metis append.assoc endswith_iff)

lemma endswith_refl: "endswith w w"
  by (simp add: endswith_def)

lemma endswith_Cons: "endswith p s \<Longrightarrow> endswith (c # p) s"
  using endswith_prepend [of p s "[c]"] by simp

lemma split_sep_nonempty [simp]: "split_sep p \<noteq> []"
  by (induction p) (auto split: list.splits)

lemma split_sep_append:
  "CHR ''/'' \<notin> set s \<Longrightarrow>
   split_sep (q @ s) = butlast (split_sep q) @ [last (split_sep q) @ s]"
proof (induction q)
  case Nil
  then show ?case
    by (induction s) (auto split: list.splits)
next
  case (Cons c q)
  then show ?case
    by (auto split: list.splits)
qed

lemma join_sep_snoc: "endswith (join_sep (acc @ [w])) w"
  by (induction acc rule: join_sep.induct)
     (auto simp: endswith_refl intro!: endswith_prepend endswith_Cons)

lemma norm_step_keep:
  "w \<noteq> [] \<Longrightarrow> w \<noteq> ''.'' \<Longrightarrow> w \<noteq> ''..'' \<Longrightarrow> norm_step init acc w = acc @ [w]"
  by (simp add: norm_step_def)

lemma normpath_endswith:
  assumes "endswith p s" and "CHR ''/'' \<notin> set s" and "2 < length s"
  shows "endswith (normpath p) s"
proof -
  from assms(1) obtain q where p: "p = q @ s"
    by (auto simp: endswith_iff)
  define w where "w = last (split_sep q) @ s"
  have w: "w \<noteq> []" "w \<noteq> ''.''" "w \<noteq> ''..''"
    using assms(3) by (auto simp: w_def dest: arg_cong [where f = length])
  have sp: "split_sep p = butlast (split_sep q) @ [w]"
    unfolding p w_def using assms(2) by (rule split_sep_append)
  have "foldl (norm_step (initial_slashes p)) [] (split_sep p) =
      foldl (norm_step (initial_slashes p)) [] (butlast (split_sep q)) @ [w]"
    by (simp add: sp norm_step_keep w)
  then have "endswith (join_sep (foldl (norm_step (initial_slashes p)) [] (split_sep p))) w"
    by (simp add: join_sep_snoc)
  then have e: "endswith (join_sep (foldl (norm_step (initial_slashes p)) [] (split_sep p))) s"
    by (metis append.assoc endswith_iff w_def)
  then have ne: "join_sep (foldl (norm_step (initial_slashes p)) [] (split_sep p)) \<noteq> []"
    using assms(3) by (auto simp: endswith_def)
  have "p \<noteq> []"
    using p assms(3) by auto
  then show ?thesis
    using e ne by (auto simp: normpath_def Let_def intro: endswith_prepend)
qed

lemma normpath_isabs: "isabs p \<Longrightarrow> isabs (normpath p)"
  by (auto simp: normpath_def Let_def isabs_def initial_slashes_def startswith_def)

lemma path_join_isabs: "isabs a \<Longrightarrow> isabs (path_join a b)"
  by (cases a) (auto simp: path_join_def isabs_def startswith_def)

lemma abspath_isabs: "isabs (cwd fs) \<Longrightarrow> isabs (abspath fs p)"
  by (simp add: abspath_def normpath_isabs path_join_isabs)

lemma path_join_endswith: "endswith b s \<Longrightarrow> endswith (path_join a b) s"
  by (auto simp: path_join_def intro!: endswith_prepend endswith_Cons)

lemma abspath_endswith:
  "endswith p s \<Longrightarrow> CHR ''/'' \<notin> set s \<Longrightarrow> 2 < length s \<Longrightarrow> endswith (abspath fs p) s"
  by (simp add: abspath_def normpath_endswith path_join_endswith)

lemma resolve_abs: "isabs p \<Longrightarrow> resolve fs p = p"
  by (simp add: resolve_def)

section \<open>Saving\<close>

lemma pptx_name_endswith: "endswith (pptx_name filename) ''.pptx''"
  by (simp add: pptx_name_def endswith_append)

lemma save_eq:
  "isabs (cwd fs) \<Longrightarrow>
   save self fs filename =
     (if writable fs (abspath fs (pptx_name filename)) then
        ((self, fs\<lparr>files := (files fs)(abspath fs (pptx_name filename) \<mapsto>
                     PptxFile (presentation self))\<rparr>),
         Inr (abspath fs (pptx_name filename)))
      else ((self, fs), Inl OSError))"
  by (simp add: save_def prs_save_def pptx_name_def resolve_abs abspath_isabs Let_def)

lemma save_self: "fst (fst (save self fs filename)) = self"
  by (simp add: save_def prs_save_def Let_def)

lemma save_failed: "isl (snd (save self fs filename)) \<Longrightarrow> fst (save self fs filename) = (self, fs)"
  by (simp add: save_def prs_save_def Let_def split: if_splits)

lemma cwd_empty_fs: "isabs (cwd empty_fs)"
  by (simp add: empty_fs_def isabs_def startswith_def)

lemmas path_defs =
  abspath_def normpath_def isabs_def startswith_def path_join_def endswith_def
  initial_slashes_def norm_step_def pptx_name_def

lemma abspath_deck: "abspath empty_fs (pptx_name ''deck'') = ''/home/user/deck.pptx''"
  by (simp add: path_defs empty_fs_def)

lemma abspath_deck_pptx: "abspath empty_fs (pptx_name ''deck.pptx'') = ''/home/user/deck.pptx''"
  by (simp add: path_defs empty_fs_def)

text \<open>
  C6. With an absolute working directory, the path \<open>save\<close> resolves is absolute and
  ends with \<^verbatim>\<open>.pptx\<close>, the extension being added exactly when the given name does not
  end with it; where that path can be written, \<open>save\<close> writes the presentation to that
  one file and returns the path.
\<close>

theorem save_writes_pptx:
  "isabs (cwd fs) \<Longrightarrow>
   endswith (abspath fs (pptx_name filename)) ''.pptx''
   \<and> isabs (abspath fs (pptx_name filename))
   \<and> (writable fs (abspath fs (pptx_name filename)) \<longrightarrow>
        save self fs filename =
          ((self, fs\<lparr>files := (files fs)(abspath fs (pptx_name filename) \<mapsto>
                       PptxFile (presentation self))\<rparr>),
           Inr (abspath fs (pptx_name filename))))
   \<and> (endswith filename ''.pptx'' \<longrightarrow> pptx_name filename = filename)
   \<and> (\<not> endswith filename ''.pptx'' \<longrightarrow> pptx_name filename = filename @ ''.pptx'')"
  by (simp add: save_eq abspath_isabs abspath_endswith pptx_name_endswith)
     (simp add: pptx_name_def)

theorem save_writes_pptx_witness:
  "isabs (cwd empty_fs)
   \<and> writable empty_fs ''/home/user/deck.pptx''
   \<and> save blank_generator empty_fs ''deck'' =
       ((blank_generator,
         empty_fs\<lparr>files := (files empty_fs)(''/home/user/deck.pptx'' \<mapsto>
                      PptxFile (presentation blank_generator))\<rparr>),
        Inr ''/home/user/deck.pptx'')
   \<and> snd (save blank_generator empty_fs ''deck.pptx'') = Inr ''/home/user/deck.pptx''"
proof -
  have w: "writable empty_fs ''/home/user/deck.pptx''"
    by (simp add: empty_fs_def)
  from save_writes_pptx [OF cwd_empty_fs, of "''deck''" blank_generator] w
  have a: "save blank_generator empty_fs ''deck'' =
       ((blank_generator,
         empty_fs\<lparr>files := (files empty_fs)(''/home/user/deck.pptx'' \<mapsto>
                      PptxFile (presentation blank_generator))\<rparr>),
        Inr ''/home/user/deck.pptx'')"
    by (simp add: abspath_deck)
  from save_writes_pptx [OF cwd_empty_fs, of "''deck.pptx''" blank_generator] w
  have b: "snd (save blank_generator empty_fs ''deck.pptx'') = Inr ''/home/user/deck.pptx''"
    by (simp add: abspath_deck_pptx)
  from cwd_empty_fs w a b show ?thesis
    by (intro conjI)
qed

text \<open>
  C7. \<open>save\<close> leaves the generator as it is, whether it succeeds or fails, and a save
  that fails leaves the files as they are too; two saves in a row to writable paths both
  succeed, and both files hold as many slides as the generator counts.
\<close>

theorem save_keeps_presentation:
  "fst (fst (save self fs filename)) = self
   \<and> (isl (snd (save self fs filename)) \<longrightarrow> fst (save self fs filename) = (self, fs))
   \<and> (isabs (cwd fs) \<and> writable fs (abspath fs (pptx_name f1))
        \<and> writable fs (abspath fs (pptx_name f2)) \<longrightarrow>
      (case save self fs f1 of ((self1, fs1), r1) \<Rightarrow>
        (case save self1 fs1 f2 of ((self2, fs2), r2) \<Rightarrow>
           r1 = Inr (abspath fs (pptx_name f1)) \<and> r2 = Inr (abspath fs (pptx_name f2))
           \<and> self2 = self
           \<and> saved_slide_count fs2 (abspath fs (pptx_name f1)) = Some (snd (get_slide_count self))
           \<and> saved_slide_count fs2 (abspath fs (pptx_name f2)) = Some (snd (get_slide_count self)))))"
proof (intro conjI impI)
  show "fst (fst (save self fs filename)) = self"
    by (rule save_self)
  show "fst (save self fs filename) = (self, fs)" if "isl (snd (save self fs filename))"
    using that by (rule save_failed)
  assume h: "isabs (cwd fs) \<and> writable fs (abspath fs (pptx_name f1))
        \<and> writable fs (abspath fs (pptx_name f2))"
  let ?fs1 = "fs\<lparr>files := (files fs)(abspath fs (pptx_name f1) \<mapsto>
                     PptxFile (presentation self))\<rparr>"
  have 1: "save self fs f1 = ((self, ?fs1), Inr (abspath fs (pptx_name f1)))"
    using h by (simp add: save_eq)
  have c: "isabs (cwd ?fs1)" "abspath ?fs1 = abspath fs"
    using h by (auto simp: abspath_def)
  have 2: "save self ?fs1 f2 =
      ((self, ?fs1\<lparr>files := (files ?fs1)(abspath fs (pptx_name f2) \<mapsto>
                     PptxFile (presentation self))\<rparr>), Inr (abspath fs (pptx_name f2)))"
    using h c by (simp add: save_eq)
  show "case save self fs f1 of ((self1, fs1), r1) \<Rightarrow>
        (case save self1 fs1 f2 of ((self2, fs2), r2) \<Rightarrow>
           r1 = Inr (abspath fs (pptx_name f1)) \<and> r2 = Inr (abspath fs (pptx_name f2))
           \<and> self2 = self
           \<and> saved_slide_count fs2 (abspath fs (pptx_name f1)) = Some (snd (get_slide_count self))
           \<and> saved_slide_count fs2 (abspath fs (pptx_name f2)) = Some (snd (get_slide_count self)))"
    unfolding 1 prod.case 2
    by (simp add: saved_slide_count_def get_slide_count_def)
qed

lemma six_slide_count: "snd (get_slide_count six_slide_generator) = 6"
  using calls_count [OF six_calls_succeeded]
  by (simp add: six_slide_generator_def get_slide_count_def blank_generator_def
      default_presentation_def six_calls_def)

lemma abspath_a: "abspath empty_fs (pptx_name ''a'') = ''/home/user/a.pptx''"
  by (simp add: path_defs empty_fs_def)

lemma abspath_b: "abspath empty_fs (pptx_name ''b.pptx'') = ''/home/user/b.pptx''"
  by (simp add: path_defs empty_fs_def)

theorem save_keeps_presentation_witness:
  "isabs (cwd empty_fs) \<and> writable empty_fs ''/home/user/a.pptx''
   \<and> writable empty_fs ''/home/user/b.pptx''
   \<and> (case save six_slide_generator empty_fs ''a'' of ((self1, fs1), r1) \<Rightarrow>
        (case save self1 fs1 ''b.pptx'' of ((self2, fs2), r2) \<Rightarrow>
           r1 = Inr ''/home/user/a.pptx'' \<and> r2 = Inr ''/home/user/b.pptx''
           \<and> self2 = six_slide_generator
           \<and> saved_slide_count fs2 ''/home/user/a.pptx'' = Some 6
           \<and> saved_slide_count fs2 ''/home/user/b.pptx'' = Some 6))
   \<and> isl (snd (save six_slide_generator readonly_fs ''a''))
   \<and> fst (save six_slide_generator readonly_fs ''a'') = (six_slide_generator, readonly_fs)"
proof -
  have w: "writable empty_fs ''/home/user/a.pptx''" "writable empty_fs ''/home/user/b.pptx''"
    by (simp_all add: empty_fs_def)
  note th = save_keeps_presentation [of six_slide_generator empty_fs _ "''a''" "''b.pptx''"]
  have two: "case save six_slide_generator empty_fs ''a'' of ((self1, fs1), r1) \<Rightarrow>
        (case save self1 fs1 ''b.pptx'' of ((self2, fs2), r2) \<Rightarrow>
           r1 = Inr ''/home/user/a.pptx'' \<and> r2 = Inr ''/home/user/b.pptx''
           \<and> self2 = six_slide_generator
           \<and> saved_slide_count fs2 ''/home/user/a.pptx'' = Some 6
           \<and> saved_slide_count fs2 ''/home/user/b.pptx'' = Some 6)"
    using th [THEN conjunct2, THEN conjunct2] cwd_empty_fs w
    by (simp add: abspath_a abspath_b six_slide_count)
  have f: "isl (snd (save six_slide_generator readonly_fs ''a''))"
    by (simp add: save_def prs_save_def Let_def readonly_fs_def)
  from save_keeps_presentation [of six_slide_generator readonly_fs "''a''", THEN conjunct2,
      THEN conjunct1] f
  have "fst (save six_slide_generator readonly_fs ''a'') = (six_slide_generator, readonly_fs)"
    by (rule mp)
  with cwd_empty_fs w two f show ?thesis
    by (intro conjI)
qed

section \<open>Shapes of a new slide\<close>

lemma frame_new:
  "frame (map (\<lambda>idx. Placeholder idx [empty_paragraph]) lay) i =
     (if i \<in> set lay then [empty_paragraph] else [])"
  by (induction lay) auto

lemma frame_set:
  "frame (set_placeholder i ps shs) j =
     (if i = j \<and> i \<in> set (ph_idxs shs) then ps else frame shs j)"
  by (induction i ps shs rule: set_placeholder.induct) auto

lemma frame_snoc:
  "ph_idxs [sh] = [] \<Longrightarrow> frame (shs @ [sh]) j = frame shs j"
  by (induction shs j rule: frame.induct) (cases sh; simp)+

lemma text_boxes_new [simp]:
  "text_boxes (map (\<lambda>idx. Placeholder idx [empty_paragraph]) lay) = []"
  by (induction lay) auto

lemma text_boxes_set [simp]: "text_boxes (set_placeholder i ps shs) = text_boxes shs"
  by (induction i ps shs rule: set_placeholder.induct) auto

lemma text_boxes_append [simp]: "text_boxes (xs @ ys) = text_boxes xs @ text_boxes ys"
  by (induction xs rule: text_boxes.induct) auto

lemma pictures_new [simp]:
  "pictures (map (\<lambda>idx. Placeholder idx [empty_paragraph]) lay) = []"
  by (induction lay) auto

lemma pictures_append [simp]: "pictures (xs @ ys) = pictures xs @ pictures ys"
  by (induction xs rule: pictures.induct) auto

section \<open>Text\<close>

lemma split_lines_nonempty [simp]: "split_lines t \<noteq> []"
  by (induction t) (auto split: list.splits)

lemma styled_first [simp]: "map p_color (take (Suc 0) (styled t sz col b al)) = [Some col]"
proof -
  obtain w ws where "split_lines t = w # ws"
    using split_lines_nonempty [of t] by (cases "split_lines t") auto
  then show ?thesis
    by (simp add: styled_def set_text_def)
qed

section \<open>Numbered items\<close>

lemma fill_frame_later:
  "0 < i \<Longrightarrow>
   fill_frame f i items ps = ps @ map (\<lambda>(k, item). f k item empty_paragraph) (enumerate i items)"
  by (induction items arbitrary: i ps) auto

lemma fill_frame_first:
  "fill_frame f 0 (item # items) [p] =
     f 0 item p # map (\<lambda>(k, item). f k item empty_paragraph) (enumerate 1 items)"
  by (simp add: fill_frame_later)

lemma content_item_text:
  "p_text (content_item self ''numbered'' i item p) = str_of_nat (i + 1) @ ''. '' @ item"
  by (simp add: content_item_def Let_def)

lemma fill_frame_numbered:
  assumes "content \<noteq> []"
  shows "map p_text
      (fill_frame (content_item self ''numbered'') 0 content (clear [empty_paragraph])) =
     numbered content"
proof -
  from assms obtain item items where c: "content = item # items"
    by (cases content) auto
  have "map p_text (fill_frame (content_item self ''numbered'') 0 (item # items)
        [empty_paragraph]) =
      (str_of_nat (0 + 1) @ ''. '' @ item) #
      map (\<lambda>(k, it). str_of_nat (k + 1) @ ''. '' @ it) (enumerate 1 items)"
    unfolding fill_frame_first
    by (simp add: content_item_text comp_def case_prod_beta del: One_nat_def)
  then show ?thesis
    by (simp add: c clear_def numbered_def enumerate_simps del: fill_frame.simps)
qed

lemma numbered_AB: "numbered [''A'', ''B''] = [''1. A'', ''2. B'']"
  by (simp add: numbered_def str_of_nat.simps digit_char_def)

section \<open>Titles\<close>

lemma two_placeholders: "0 \<in> set lay \<Longrightarrow> Suc 0 \<in> set lay \<Longrightarrow> Suc 0 < length (lay :: nat list)"
proof -
  assume "0 \<in> set lay" "Suc 0 \<in> set lay"
  then have "{0, Suc 0} \<subseteq> set lay" by simp
  then have "card {0, Suc 0} \<le> card (set lay)"
    by (intro card_mono) auto
  also have "\<dots> \<le> length lay" by (rule card_length)
  finally show ?thesis by simp
qed

lemmas shape_simps =
  frame_set frame_new frame_snoc ph_idxs_new

lemma call_title:
  assumes "themed c" and "call fs self c = (self', Inr s)"
  shows "slides (presentation self') = slides (presentation self) @ [s]
    \<and> map p_color (take 1 (title_of c s)) = [Some (primary_color self)]"
proof (cases c)
  case (TitleSlide t sub au)
  with assms show ?thesis
    by (auto simp: add_title_slide_def slide_defs shape_simps  Let_def
        split: sum.splits if_splits)
next
  case (ContentSlide t content l)
  with assms show ?thesis
    by (auto simp: add_content_slide_def slide_defs shape_simps
        split: sum.splits if_splits)
next
  case (TwoColumnSlide t l r)
  with assms show ?thesis
    by (auto simp: add_two_column_slide_def slide_defs shape_simps
        split: sum.splits if_splits)
next
  case (ImageSlide t p cap)
  with assms show ?thesis
    by (auto simp: add_image_slide_def slide_defs add_picture_def  Let_def
        split: sum.splits if_splits option.splits fs_file.splits)
next
  case (ChartSlide t d k)
  with assms show ?thesis
    by (auto simp: add_chart_slide_def add_chart_def slide_defs shape_simps
        split: sum.splits if_splits)
next
  case (SectionSlide t b)
  with assms show ?thesis by simp
qed

lemma title_slide_subtitle:
  assumes "add_title_slide self t sub au = (self', Inr s)" and "has_placeholder s 1"
    and "sub \<noteq> [] \<or> au \<noteq> []"
  shows "map p_color (take 1 (frame (shapes s) 1)) = [Some (accent_color self)]"
  using assms
  by (auto simp: add_title_slide_def slide_defs shape_simps  Let_def
      two_placeholders split: sum.splits if_splits)

lemma set_theme_presentation:
  "presentation (fst (set_theme_colors self primary accent)) = presentation self"
  by (auto simp: set_theme_colors_def Let_def split: sum.splits)

lemma set_theme_primary:
  "set_theme_colors self (r, g, b) accent = (self', Inr ()) \<Longrightarrow> primary_color self' = RGB r g b"
  by (auto simp: set_theme_colors_def Let_def RGBColor_def split: sum.splits if_splits)

lemma set_theme_accent:
  "set_theme_colors self primary (r, g, b) = (self', Inr ()) \<Longrightarrow> accent_color self' = RGB r g b"
  by (auto simp: set_theme_colors_def Let_def RGBColor_def split: sum.splits if_splits)

section \<open>Theme colours and the slides\<close>

text \<open>
  C8. \<open>set_theme_colors\<close> leaves the presentation, and so every slide appended
  before, as it is, whether it succeeds or raises. After a call that succeeds, a slide
  whose title takes the theme (every kind but the section slide, whose title is white)
  is appended with the new primary colour on the first paragraph of its title, and a
  title slide with a subtitle or an author carries the new accent colour on the first
  paragraph of its subtitle.
\<close>

theorem theme_for_later_slides:
  "presentation (fst (set_theme_colors self primary accent)) = presentation self
   \<and> (set_theme_colors self (r, g, b) (r', g', b') = (self', Inr ()) \<and> themed c
        \<and> call fs self' c = (self'', Inr s) \<longrightarrow>
      slides (presentation self'') = slides (presentation self) @ [s]
      \<and> map p_color (take 1 (title_of c s)) = [Some (RGB r g b)])
   \<and> (set_theme_colors self (r, g, b) (r', g', b') = (self', Inr ())
        \<and> add_title_slide self' t sub au = (self'', Inr s) \<and> has_placeholder s 1
        \<and> (sub \<noteq> [] \<or> au \<noteq> []) \<longrightarrow>
      map p_color (take 1 (frame (shapes s) 1)) = [Some (RGB r' g' b')])"
proof (intro conjI impI)
  show "presentation (fst (set_theme_colors self primary accent)) = presentation self"
    by (rule set_theme_presentation)
next
  assume h: "set_theme_colors self (r, g, b) (r', g', b') = (self', Inr ()) \<and> themed c
        \<and> call fs self' c = (self'', Inr s)"
  then have p: "primary_color self' = RGB r g b"
    by (auto dest: set_theme_primary)
  from h have "presentation self' = presentation self"
    using set_theme_presentation [of self "(r, g, b)" "(r', g', b')"] by simp
  with call_title [of c fs self' self'' s] h p
  show "slides (presentation self'') = slides (presentation self) @ [s]"
    and "map p_color (take 1 (title_of c s)) = [Some (RGB r g b)]"
    by simp_all
next
  assume h: "set_theme_colors self (r, g, b) (r', g', b') = (self', Inr ())
        \<and> add_title_slide self' t sub au = (self'', Inr s) \<and> has_placeholder s 1
        \<and> (sub \<noteq> [] \<or> au \<noteq> [])"
  then have "accent_color self' = RGB r' g' b'"
    by (auto dest: set_theme_accent)
  with title_slide_subtitle [of self' t sub au self'' s] h
  show "map p_color (take 1 (frame (shapes s) 1)) = [Some (RGB r' g' b')]"
    by simp
qed

lemma red_generator_eq:
  "set_theme_colors one_slide_generator (255, 0, 0) (0, 0, 255) = (red_generator, Inr ())"
  by (simp add: red_generator_def set_theme_colors_def RGBColor_def channel_ok_def Let_def)

lemma one_slide_layouts: "layout_at (presentation one_slide_generator) 0 = Inr [0, 1]"
  by (simp add: one_slide_generator_def add_title_slide_def layout_at_def finish_def
      then_do_def set_title_def has_placeholder_def blank_generator_def
      default_presentation_def split: prod.splits)

lemma red_layouts: "layout_at (presentation red_generator) 0 = Inr [0, 1]"
  using one_slide_layouts set_theme_presentation [of one_slide_generator "(255, 0, 0)" "(0, 0, 255)"]
  by (simp add: red_generator_def)

lemma red_call:
  "\<exists>s. call empty_fs red_generator (TitleSlide ''New'' ''Sub'' []) =
          (fst (call empty_fs red_generator (TitleSlide ''New'' ''Sub'' [])), Inr s)
        \<and> has_placeholder s 1"
  unfolding call.simps add_title_slide_def red_layouts
  by (simp add: finish_def then_do_def set_title_def has_placeholder_def Let_def)

lemma old_slide_colors:
  "map (\<lambda>s. (map p_color (frame (shapes s) 0), map p_color (frame (shapes s) 1)))
     (slides (presentation one_slide_generator)) =
   [([Some (RGB 31 73 125)], [Some (RGB 79 129 189)])]"
  by (simp add: one_slide_generator_def add_title_slide_def slide_defs blank_generator_def
      default_presentation_def styled_def set_text_def Let_def)

theorem theme_for_later_slides_witness:
  "set_theme_colors one_slide_generator (255, 0, 0) (0, 0, 255) = (red_generator, Inr ())
   \<and> presentation red_generator = presentation one_slide_generator
   \<and> map (\<lambda>s. (map p_color (frame (shapes s) 0), map p_color (frame (shapes s) 1)))
        (slides (presentation red_generator)) =
      [([Some (RGB 31 73 125)], [Some (RGB 79 129 189)])]
   \<and> themed (TitleSlide ''New'' ''Sub'' [])
   \<and> (\<exists>s. snd (call empty_fs red_generator (TitleSlide ''New'' ''Sub'' [])) = Inr s
        \<and> slides (presentation (fst (call empty_fs red_generator (TitleSlide ''New'' ''Sub'' [])))) =
            slides (presentation one_slide_generator) @ [s]
        \<and> map p_color (take 1 (title_of (TitleSlide ''New'' ''Sub'' []) s)) = [Some (RGB 255 0 0)]
        \<and> map p_color (take 1 (frame (shapes s) 1)) = [Some (RGB 0 0 255)])"
proof -
  let ?c = "TitleSlide ''New'' ''Sub'' []"
  let ?self = "fst (call empty_fs red_generator ?c)"
  from red_call obtain s where
    c: "call empty_fs red_generator ?c = (?self, Inr s)" and ph: "has_placeholder s 1"
    by blast
  note th = theme_for_later_slides [of one_slide_generator "(255, 0, 0)" "(0, 0, 255)"
      255 0 0 0 0 255 red_generator ?c empty_fs ?self s "''New''" "''Sub''" "[]"]
  have p: "presentation red_generator = presentation one_slide_generator"
    using th [THEN conjunct1] by (simp add: red_generator_def)
  have o: "map (\<lambda>s. (map p_color (frame (shapes s) 0), map p_color (frame (shapes s) 1)))
        (slides (presentation red_generator)) =
      [([Some (RGB 31 73 125)], [Some (RGB 79 129 189)])]"
    unfolding p by (rule old_slide_colors)
  have t: "themed ?c" by simp
  have h1: "set_theme_colors one_slide_generator (255, 0, 0) (0, 0, 255) = (red_generator, Inr ())
      \<and> themed ?c \<and> call empty_fs red_generator ?c = (?self, Inr s)"
    using red_generator_eq t c by (intro conjI)
  have a: "slides (presentation ?self) = slides (presentation one_slide_generator) @ [s]
      \<and> map p_color (take 1 (title_of ?c s)) = [Some (RGB 255 0 0)]"
    using th [THEN conjunct2, THEN conjunct1] h1 by (rule mp)
  have c': "add_title_slide red_generator ''New'' ''Sub'' [] = (?self, Inr s)"
    using c by simp
  have ne: "''Sub'' \<noteq> [] \<or> ([]::string) \<noteq> []"
    by simp
  have h2: "set_theme_colors one_slide_generator (255, 0, 0) (0, 0, 255) = (red_generator, Inr ())
      \<and> add_title_slide red_generator ''New'' ''Sub'' [] = (?self, Inr s) \<and> has_placeholder s 1
      \<and> (''Sub'' \<noteq> [] \<or> ([]::string) \<noteq> [])"
    using red_generator_eq c' ph ne by (intro conjI)
  have b: "map p_color (take 1 (frame (shapes s) 1)) = [Some (RGB 0 0 255)]"
    using th [THEN conjunct2, THEN conjunct2] h2 by (rule mp)
  have s: "snd (call empty_fs red_generator ?c) = Inr s"
    using c by (simp add: prod_eq_iff)
  have e: "\<exists>s. snd (call empty_fs red_generator ?c) = Inr s
        \<and> slides (presentation ?self) = slides (presentation one_slide_generator) @ [s]
        \<and> map p_color (take 1 (title_of ?c s)) = [Some (RGB 255 0 0)]
        \<and> map p_color (take 1 (frame (shapes s) 1)) = [Some (RGB 0 0 255)]"
  proof (intro exI conjI)
    show "snd (call empty_fs red_generator ?c) = Inr s"
      by (rule s)
    show "slides (presentation ?self) = slides (presentation one_slide_generator) @ [s]"
      using a by (rule conjunct1)
    show "map p_color (take 1 (title_of ?c s)) = [Some (RGB 255 0 0)]"
      using a by (rule conjunct2)
    show "map p_color (take 1 (frame (shapes s) 1)) = [Some (RGB 0 0 255)]"
      by (rule b)
  qed
  from red_generator_eq p o t e show ?thesis
    by (intro conjI)
qed

section \<open>Chart datasets\<close>

lemma unlabelled_dicts:
  "unlabelled = \<lparr>cd_categories = Some [], cd_series = Some (series_dicts [(''Sales'', [])])\<rparr>"
  by (simp add: unlabelled_def series_dicts_def)

text \<open>
  The generator compares no lengths, and neither does the library. The dataset with the
  categories Q1, Q2 and a series of three values is appended without a failure; and a
  dataset whose lengths all agree fails, with the library's ValueError, when it has a
  series but no category.
\<close>

theorem chart_length_check_counterexample:
  "cd_categories quarters = Some [''Q1'', ''Q2'']
   \<and> cd_series quarters = Some [\<lparr>sd_name = Some ''Sales'', sd_values = Some [1, 2, 3]\<rparr>]
   \<and> length [''Q1'', ''Q2''] \<noteq> length [1, 2, 3 :: int]
   \<and> \<not> isl (snd (add_chart_slide blank_generator ''Sales'' quarters ''column''))
   \<and> cd_categories unlabelled = Some []
   \<and> cd_series unlabelled = Some [\<lparr>sd_name = Some ''Sales'', sd_values = Some []\<rparr>]
   \<and> snd (add_chart_slide blank_generator ''Sales'' unlabelled ''column'') = Inl ValueError"
  by (simp add: quarters_def unlabelled_def add_chart_slide_def add_chart_def slide_defs
      blank_generator_def default_presentation_def chart_type_map_def)

text \<open>
  C2. For series that each have a name and values, on a chart layout with a title
  placeholder, the lengths of the values play no part in \<open>add_chart_slide\<close>. With a
  category and a series the call succeeds, and the chart holds the categories and the
  series as given (a pie chart the first series only); with a series and no category it
  fails at the call with ValueError; with no series it succeeds with a chart without
  series, but for a pie chart, which fails at the call with IndexError.
\<close>

theorem chart_lengths_unchecked:
  assumes "layout_at (presentation self) 5 = Inr lay" and "0 \<in> set lay"
    and "kind = get_or (chart_type_map chart_type) COLUMN_CLUSTERED"
  shows "(cats \<noteq> [] \<and> sers \<noteq> [] \<longrightarrow>
      (\<exists>s. add_chart_slide self title
              \<lparr>cd_categories = Some cats, cd_series = Some (series_dicts sers)\<rparr> chart_type =
            (self\<lparr>presentation :=
                (presentation self)\<lparr>slides := slides (presentation self) @ [s]\<rparr>\<rparr>, Inr s)
         \<and> charts (shapes s) = [(kind, cats, if kind = PIE then take 1 sers else sers)]))
   \<and> (cats = [] \<and> sers \<noteq> [] \<longrightarrow>
        snd (add_chart_slide self title
              \<lparr>cd_categories = Some cats, cd_series = Some (series_dicts sers)\<rparr> chart_type) =
          Inl ValueError)
   \<and> (sers = [] \<and> kind \<noteq> PIE \<longrightarrow>
      (\<exists>s. add_chart_slide self title
              \<lparr>cd_categories = Some cats, cd_series = Some (series_dicts sers)\<rparr> chart_type =
            (self\<lparr>presentation :=
                (presentation self)\<lparr>slides := slides (presentation self) @ [s]\<rparr>\<rparr>, Inr s)
         \<and> charts (shapes s) = [(kind, cats, [])]))
   \<and> (sers = [] \<and> kind = PIE \<longrightarrow>
        snd (add_chart_slide self title
              \<lparr>cd_categories = Some cats, cd_series = Some (series_dicts sers)\<rparr> chart_type) =
          Inl IndexError)"
proof (intro conjI impI)
  assume "cats \<noteq> [] \<and> sers \<noteq> []"
  then show "\<exists>s. add_chart_slide self title
              \<lparr>cd_categories = Some cats, cd_series = Some (series_dicts sers)\<rparr> chart_type =
            (self\<lparr>presentation :=
                (presentation self)\<lparr>slides := slides (presentation self) @ [s]\<rparr>\<rparr>, Inr s)
         \<and> charts (shapes s) = [(kind, cats, if kind = PIE then take 1 sers else sers)]"
    using add_chart_slide_ok [OF assms(1,2), of cats sers chart_type title] assms(3) by simp
next
  assume "cats = [] \<and> sers \<noteq> []"
  then show "snd (add_chart_slide self title
              \<lparr>cd_categories = Some cats, cd_series = Some (series_dicts sers)\<rparr> chart_type) =
          Inl ValueError"
    using add_chart_slide_failed [OF assms(1,2), of title cats sers chart_type] by simp
next
  assume "sers = [] \<and> kind \<noteq> PIE"
  then show "\<exists>s. add_chart_slide self title
              \<lparr>cd_categories = Some cats, cd_series = Some (series_dicts sers)\<rparr> chart_type =
            (self\<lparr>presentation :=
                (presentation self)\<lparr>slides := slides (presentation self) @ [s]\<rparr>\<rparr>, Inr s)
         \<and> charts (shapes s) = [(kind, cats, [])]"
    using add_chart_slide_ok [OF assms(1,2), of cats sers chart_type title] assms(3) by simp
next
  assume "sers = [] \<and> kind = PIE"
  then show "snd (add_chart_slide self title
              \<lparr>cd_categories = Some cats, cd_series = Some (series_dicts sers)\<rparr> chart_type) =
          Inl IndexError"
    using add_chart_slide_failed [OF assms(1,2), of title cats sers chart_type] assms(3) by simp
qed

lemma chart_type_line: "LINE = get_or (chart_type_map ''line'') COLUMN_CLUSTERED"
  by (simp add: chart_type_map_def get_or_def)

lemma chart_type_pie: "PIE = get_or (chart_type_map ''pie'') COLUMN_CLUSTERED"
  by (simp add: chart_type_map_def get_or_def)

theorem chart_lengths_unchecked_witness:
  "layout_at (presentation blank_generator) 5 = Inr [0]
   \<and> (\<exists>s. snd (add_chart_slide blank_generator ''Sales'' quarters ''line'') = Inr s
          \<and> charts (shapes s) = [(LINE, [''Q1'', ''Q2''], [(''Sales'', [1, 2, 3])])])
   \<and> snd (add_chart_slide blank_generator ''Sales'' unlabelled ''line'') = Inl ValueError
   \<and> (\<exists>s. snd (add_chart_slide blank_generator ''Sales''
                 \<lparr>cd_categories = Some [''Q1''], cd_series = Some []\<rparr> ''line'') = Inr s
          \<and> charts (shapes s) = [(LINE, [''Q1''], [])])
   \<and> snd (add_chart_slide blank_generator ''Sales''
            \<lparr>cd_categories = Some [''Q1''], cd_series = Some []\<rparr> ''pie'') = Inl IndexError"
proof -
  have z: "0 \<in> set [0::nat]"
    by simp
  note line = chart_lengths_unchecked [OF blank_layout_5 z chart_type_line]
  note pie = chart_lengths_unchecked [OF blank_layout_5 z chart_type_pie]
  have ne: "[''Q1'', ''Q2''] \<noteq> [] \<and> [(''Sales'', [1, 2, 3::int])] \<noteq> []"
    by simp
  have "\<exists>s. add_chart_slide blank_generator ''Sales'' quarters ''line'' =
            (blank_generator\<lparr>presentation :=
               (presentation blank_generator)\<lparr>slides :=
                  slides (presentation blank_generator) @ [s]\<rparr>\<rparr>, Inr s)
          \<and> charts (shapes s) =
              [(LINE, [''Q1'', ''Q2''],
                if LINE = PIE then take 1 [(''Sales'', [1, 2, 3])] else [(''Sales'', [1, 2, 3])])]"
    unfolding quarters_dicts
    using line [of "[''Q1'', ''Q2'']" "[(''Sales'', [1, 2, 3])]" "''Sales''", THEN conjunct1] ne
    by (rule mp)
  then obtain s where
    a: "add_chart_slide blank_generator ''Sales'' quarters ''line'' =
       (blank_generator\<lparr>presentation :=
          (presentation blank_generator)\<lparr>slides :=
             slides (presentation blank_generator) @ [s]\<rparr>\<rparr>, Inr s)"
    and b: "charts (shapes s) =
       [(LINE, [''Q1'', ''Q2''],
         if LINE = PIE then take 1 [(''Sales'', [1, 2, 3])] else [(''Sales'', [1, 2, 3])])]"
    by blast
  have s: "snd (add_chart_slide blank_generator ''Sales'' quarters ''line'') = Inr s"
    unfolding a by (rule snd_conv)
  have b': "charts (shapes s) = [(LINE, [''Q1'', ''Q2''], [(''Sales'', [1, 2, 3])])]"
    unfolding b by simp
  have c1: "\<exists>s. snd (add_chart_slide blank_generator ''Sales'' quarters ''line'') = Inr s
          \<and> charts (shapes s) = [(LINE, [''Q1'', ''Q2''], [(''Sales'', [1, 2, 3])])]"
  proof (intro exI conjI)
    show "snd (add_chart_slide blank_generator ''Sales'' quarters ''line'') = Inr s"
      by (rule s)
    show "charts (shapes s) = [(LINE, [''Q1'', ''Q2''], [(''Sales'', [1, 2, 3])])]"
      by (rule b')
  qed
  have ne2: "([]::string list) = [] \<and> [(''Sales'', []::int list)] \<noteq> []"
    by simp
  have c2: "snd (add_chart_slide blank_generator ''Sales'' unlabelled ''line'') = Inl ValueError"
    unfolding unlabelled_dicts
    using line [of "[]" "[(''Sales'', [])]" "''Sales''", THEN conjunct2, THEN conjunct1] ne2
    by (rule mp)
  have ne3: "([]::(string \<times> int list) list) = [] \<and> PIE = PIE"
    by simp
  have "snd (add_chart_slide blank_generator ''Sales''
            \<lparr>cd_categories = Some [''Q1''], cd_series = Some (series_dicts [])\<rparr> ''pie'') =
       Inl IndexError"
    using pie [of "[''Q1'']" "[]" "''Sales''", THEN conjunct2, THEN conjunct2, THEN conjunct2] ne3
    by (rule mp)
  then have c3: "snd (add_chart_slide blank_generator ''Sales''
            \<lparr>cd_categories = Some [''Q1''], cd_series = Some []\<rparr> ''pie'') = Inl IndexError"
    by (simp add: series_dicts_def)
  have ne4: "([]::(string \<times> int list) list) = [] \<and> LINE \<noteq> PIE"
    by simp
  have "\<exists>s. add_chart_slide blank_generator ''Sales''
              \<lparr>cd_categories = Some [''Q1''], cd_series = Some (series_dicts [])\<rparr> ''line'' =
            (blank_generator\<lparr>presentation :=
               (presentation blank_generator)\<lparr>slides :=
                  slides (presentation blank_generator) @ [s]\<rparr>\<rparr>, Inr s)
          \<and> charts (shapes s) = [(LINE, [''Q1''], [])]"
    using line [of "[''Q1'']" "[]" "''Sales''", THEN conjunct2, THEN conjunct2, THEN conjunct1] ne4
    by (rule mp)
  then obtain s' where
    a': "add_chart_slide blank_generator ''Sales''
              \<lparr>cd_categories = Some [''Q1''], cd_series = Some (series_dicts [])\<rparr> ''line'' =
            (blank_generator\<lparr>presentation :=
               (presentation blank_generator)\<lparr>slides :=
                  slides (presentation blank_generator) @ [s']\<rparr>\<rparr>, Inr s')"
    and b4: "charts (shapes s') = [(LINE, [''Q1''], [])]"
    by blast
  have "snd (add_chart_slide blank_generator ''Sales''
              \<lparr>cd_categories = Some [''Q1''], cd_series = Some (series_dicts [])\<rparr> ''line'') =
      Inr s'"
    unfolding a' by (rule snd_conv)
  then have s4: "snd (add_chart_slide blank_generator ''Sales''
              \<lparr>cd_categories = Some [''Q1''], cd_series = Some []\<rparr> ''line'') = Inr s'"
    by (simp add: series_dicts_def)
  have c4: "\<exists>s. snd (add_chart_slide blank_generator ''Sales''
                 \<lparr>cd_categories = Some [''Q1''], cd_series = Some []\<rparr> ''line'') = Inr s
          \<and> charts (shapes s) = [(LINE, [''Q1''], [])]"
  proof (intro exI conjI)
    show "snd (add_chart_slide blank_generator ''Sales''
              \<lparr>cd_categories = Some [''Q1''], cd_series = Some []\<rparr> ''line'') = Inr s'"
      by (rule s4)
    show "charts (shapes s') = [(LINE, [''Q1''], [])]"
      by (rule b4)
  qed
  from blank_layout_5 c1 c2 c4 c3 show ?thesis
    by (intro conjI)
qed

section \<open>Images\<close>

lemma add_image_slide_missing:
  assumes "\<not> exists_path fs image_path" and "layout_at (presentation self) 6 = Inr lay"
  shows "add_image_slide fs self title image_path caption =
     finish self
       (add_shape (new_slide 6 lay)
          (TextBox (Inches 1) (Inches (1/2)) (Inches 8) (Inches 1)
             (styled title (Pt 36) (primary_color self) True (Some CENTER))), None)"
  using assms by (simp add: add_image_slide_def Let_def)

lemma save_result:
  "snd (save self fs filename) =
     (if writable fs (resolve fs (abspath fs (pptx_name filename)))
      then Inr (abspath fs (pptx_name filename)) else Inl OSError)"
  by (simp add: save_def prs_save_def pptx_name_def Let_def)

lemma save_result_ok:
  "isabs (cwd fs) \<Longrightarrow> writable fs (abspath fs (pptx_name filename)) \<Longrightarrow>
   snd (save self fs filename) = Inr (abspath fs (pptx_name filename))"
  by (simp add: save_eq)

lemma not_exists_logo: "\<not> exists_path empty_fs ''logo.png''"
  by (simp add: exists_path_def empty_fs_def)

lemma blank_layout_6: "layout_at (presentation blank_generator) 6 = Inr []"
  by (simp add: layout_at_def blank_generator_def default_presentation_def)

lemma writable_deck: "writable empty_fs (abspath empty_fs (pptx_name ''deck''))"
  by (simp add: empty_fs_def)

text \<open>
  The name \<^verbatim>\<open>logo.png\<close> is no file, the slide is appended, and the save that follows
  succeeds.
\<close>

theorem missing_image_counterexample:
  "\<not> exists_path empty_fs ''logo.png''
   \<and> \<not> isl (snd (add_image_slide empty_fs blank_generator ''Logo'' ''logo.png'' ''the logo''))
   \<and> snd (save (fst (add_image_slide empty_fs blank_generator ''Logo'' ''logo.png'' ''the logo''))
          empty_fs ''deck'') = Inr ''/home/user/deck.pptx''"
  using save_result_ok [OF cwd_empty_fs writable_deck]
  by (simp add: add_image_slide_missing [OF not_exists_logo blank_layout_6] finish_ok
      not_exists_logo abspath_deck)

text \<open>
  C4. For an image path that is no existing file, \<open>add_image_slide\<close> succeeds where
  the presentation has a seventh layout: it appends one slide, which holds the title box
  and nothing else, neither picture nor caption. No later call looks for the image:
  \<open>save\<close> gives what it gives without that slide, and succeeds wherever the path can be
  written.
\<close>

theorem missing_image_skipped:
  assumes "\<not> exists_path fs image_path" and "layout_at (presentation self) 6 = Inr lay"
  shows "\<exists>s. add_image_slide fs self title image_path caption =
              (self\<lparr>presentation :=
                  (presentation self)\<lparr>slides := slides (presentation self) @ [s]\<rparr>\<rparr>, Inr s)
           \<and> pictures (shapes s) = []
           \<and> text_boxes (shapes s) =
               [styled title (Pt 36) (primary_color self) True (Some CENTER)]
           \<and> snd (save (fst (add_image_slide fs self title image_path caption)) fs' filename) =
               snd (save self fs' filename)
           \<and> (isabs (cwd fs') \<and> writable fs' (abspath fs' (pptx_name filename)) \<longrightarrow>
                snd (save (fst (add_image_slide fs self title image_path caption)) fs' filename) =
                  Inr (abspath fs' (pptx_name filename)))"
proof -
  let ?s = "add_shape (new_slide 6 lay)
          (TextBox (Inches 1) (Inches (1/2)) (Inches 8) (Inches 1)
             (styled title (Pt 36) (primary_color self) True (Some CENTER)))"
  have "add_image_slide fs self title image_path caption =
      (self\<lparr>presentation :=
          (presentation self)\<lparr>slides := slides (presentation self) @ [?s]\<rparr>\<rparr>, Inr ?s)"
    by (simp add: add_image_slide_missing [OF assms] finish_ok)
  moreover have "pictures (shapes ?s) = []"
    by (simp add: add_shape_def new_slide_def)
  moreover have "text_boxes (shapes ?s) =
      [styled title (Pt 36) (primary_color self) True (Some CENTER)]"
    by (simp add: add_shape_def new_slide_def)
  moreover have "snd (save (fst (add_image_slide fs self title image_path caption)) fs' filename) =
      snd (save self fs' filename)"
    by (simp add: save_result)
  moreover have "isabs (cwd fs') \<and> writable fs' (abspath fs' (pptx_name filename)) \<longrightarrow>
      snd (save (fst (add_image_slide fs self title image_path caption)) fs' filename) =
        Inr (abspath fs' (pptx_name filename))"
    by (simp add: save_result_ok)
  ultimately show ?thesis
    by blast
qed

theorem missing_image_skipped_witness:
  "\<not> exists_path empty_fs ''logo.png''
   \<and> layout_at (presentation blank_generator) 6 = Inr []
   \<and> isabs (cwd empty_fs) \<and> writable empty_fs ''/home/user/deck.pptx''
   \<and> (\<exists>s. snd (add_image_slide empty_fs blank_generator ''Logo'' ''logo.png'' ''the logo'') = Inr s
         \<and> pictures (shapes s) = []
         \<and> map (map p_text) (text_boxes (shapes s)) = [[''Logo'']])
   \<and> snd (save (fst (add_image_slide empty_fs blank_generator ''Logo'' ''logo.png'' ''the logo''))
          empty_fs ''deck'') = Inr ''/home/user/deck.pptx''"
proof -
  let ?r = "add_image_slide empty_fs blank_generator ''Logo'' ''logo.png'' ''the logo''"
  from missing_image_skipped [OF not_exists_logo blank_layout_6, of "''Logo''" "''the logo''"
      empty_fs "''deck''"]
  obtain s where
    a: "?r = (blank_generator\<lparr>presentation :=
               (presentation blank_generator)\<lparr>slides :=
                  slides (presentation blank_generator) @ [s]\<rparr>\<rparr>, Inr s)"
    and p: "pictures (shapes s) = []"
    and t: "text_boxes (shapes s) =
        [styled ''Logo'' (Pt 36) (primary_color blank_generator) True (Some CENTER)]"
    and sv: "isabs (cwd empty_fs) \<and> writable empty_fs (abspath empty_fs (pptx_name ''deck'')) \<longrightarrow>
        snd (save (fst ?r) empty_fs ''deck'') = Inr (abspath empty_fs (pptx_name ''deck''))"
    by blast
  have w: "writable empty_fs ''/home/user/deck.pptx''"
    by (simp add: empty_fs_def)
  have s: "snd ?r = Inr s"
    unfolding a by (rule snd_conv)
  have t': "map (map p_text) (text_boxes (shapes s)) = [[''Logo'']]"
    unfolding t by (simp add: styled_def set_text_def)
  have e: "\<exists>s. snd ?r = Inr s \<and> pictures (shapes s) = []
         \<and> map (map p_text) (text_boxes (shapes s)) = [[''Logo'']]"
  proof (intro exI conjI)
    show "snd ?r = Inr s" by (rule s)
    show "pictures (shapes s) = []" by (rule p)
    show "map (map p_text) (text_boxes (shapes s)) = [[''Logo'']]" by (rule t')
  qed
  have "snd (save (fst ?r) empty_fs ''deck'') = Inr (abspath empty_fs (pptx_name ''deck''))"
    using sv cwd_empty_fs writable_deck by blast
  then have d: "snd (save (fst ?r) empty_fs ''deck'') = Inr ''/home/user/deck.pptx''"
    unfolding abspath_deck .
  from not_exists_logo blank_layout_6 cwd_empty_fs w e d show ?thesis
    by (intro conjI)
qed

section \<open>Numbered lists\<close>

lemma add_content_slide_eq:
  assumes "layout_at (presentation self) 1 = Inr lay" and "0 \<in> set lay" and "Suc 0 \<in> set lay"
  shows "add_content_slide self title content layout_type =
     finish self
       (set_frame
          (set_frame (new_slide 1 lay) 0 (styled title (Pt 36) (primary_color self) True None))
          1 (fill_frame (content_item self layout_type) 0 content (clear [empty_paragraph])),
        None)"
  using assms two_placeholders [of lay]
  by (simp add: add_content_slide_def then_do_def set_title_def has_placeholder_def)

lemma frame_content:
  assumes "0 \<in> set lay" and "Suc 0 \<in> set lay"
  shows "frame (shapes (set_frame (set_frame (new_slide 1 lay) 0 ps) 1 qs)) 1 = qs"
  using assms by (simp add: set_frame_def new_slide_def frame_set ph_idxs_new)

lemma fill_frame_empty:
  "map p_text (fill_frame f 0 [] (clear [empty_paragraph])) = [[]]"
  by (simp add: clear_def empty_paragraph_def)

lemma finish_last: "last (slides (presentation (fst (finish self (s, None))))) = s"
  by (simp add: finish_def)

lemma blank_layout_1: "layout_at (presentation blank_generator) 1 = Inr [0, 1]"
  by (simp add: layout_at_def blank_generator_def default_presentation_def)

text \<open>
  The slide \<open>add_content_slide\<close> puts into the presentation holds the numbered
  strings before any save: the numbers are stored, not added when the file is written.
\<close>

theorem numbered_at_save_counterexample:
  "map p_text
     (frame (shapes (last (slides (presentation
        (fst (add_content_slide blank_generator ''Steps'' [''A'', ''B''] ''numbered'')))))) 1) =
   [''1. A'', ''2. B'']
   \<and> [''1. A'', ''2. B''] \<noteq> [''A'', ''B'']"
proof -
  let ?s = "set_frame
      (set_frame (new_slide 1 [0, Suc 0]) 0
         (styled ''Steps'' (Pt 36) (primary_color blank_generator) True None))
      1 (fill_frame (content_item blank_generator ''numbered'') 0 [''A'', ''B'']
           (clear [empty_paragraph]))"
  have z: "0 \<in> set [0, Suc 0]" "Suc 0 \<in> set [0, Suc 0]"
    by simp_all
  have l: "layout_at (presentation blank_generator) 1 = Inr [0, Suc 0]"
    using blank_layout_1 by simp
  have r: "last (slides (presentation
      (fst (add_content_slide blank_generator ''Steps'' [''A'', ''B''] ''numbered'')))) = ?s"
    unfolding add_content_slide_eq [OF l z] by (rule finish_last)
  have f: "map p_text (frame (shapes ?s) 1) = numbered [''A'', ''B'']"
    unfolding frame_content [OF z] by (rule fill_frame_numbered) simp
  show ?thesis
    unfolding r f numbered_AB by simp
qed

text \<open>
  C5. On a content layout with a title and a body placeholder, \<open>add_content_slide\<close>
  with the layout type "numbered" succeeds and writes the items into the body of the
  slide it appends, one paragraph each in the order given, each already prefixed with
  its position counted from 1 (without items the body is one empty paragraph). The
  prefix is part of the text stored in the slide; \<open>save\<close> writes the presentation as it
  is stored.
\<close>

theorem numbered_items_stored:
  assumes "layout_at (presentation self) 1 = Inr lay" and "0 \<in> set lay" and "1 \<in> set lay"
  shows "\<exists>s. add_content_slide self title content ''numbered'' =
              (self\<lparr>presentation :=
                  (presentation self)\<lparr>slides := slides (presentation self) @ [s]\<rparr>\<rparr>, Inr s)
           \<and> map p_text (frame (shapes s) 1) =
               (if content = [] then [[]] else numbered content)
           \<and> (isabs (cwd fs) \<and> writable fs (abspath fs (pptx_name filename)) \<longrightarrow>
                files (snd (fst (save (fst (add_content_slide self title content ''numbered''))
                   fs filename))) (abspath fs (pptx_name filename)) =
                  Some (PptxFile (presentation
                    (fst (add_content_slide self title content ''numbered'')))))"
proof -
  have one: "Suc 0 \<in> set lay"
    using assms(3) by simp
  let ?s = "set_frame
          (set_frame (new_slide 1 lay) 0 (styled title (Pt 36) (primary_color self) True None))
          1 (fill_frame (content_item self ''numbered'') 0 content (clear [empty_paragraph]))"
  have "add_content_slide self title content ''numbered'' =
      (self\<lparr>presentation :=
          (presentation self)\<lparr>slides := slides (presentation self) @ [?s]\<rparr>\<rparr>, Inr ?s)"
    by (simp add: add_content_slide_eq [OF assms(1,2) one] finish_ok)
  moreover have "map p_text (frame (shapes ?s) 1) =
      (if content = [] then [[]] else numbered content)"
    unfolding frame_content [OF assms(2) one]
    by (simp add: fill_frame_numbered fill_frame_empty del: fill_frame.simps)
  moreover have "isabs (cwd fs) \<and> writable fs (abspath fs (pptx_name filename)) \<longrightarrow>
                files (snd (fst (save (fst (add_content_slide self title content ''numbered''))
                   fs filename))) (abspath fs (pptx_name filename)) =
                  Some (PptxFile (presentation
                    (fst (add_content_slide self title content ''numbered''))))"
    by (simp add: save_eq)
  ultimately show ?thesis
    by blast
qed

theorem numbered_items_stored_witness:
  "layout_at (presentation blank_generator) 1 = Inr [0, 1]
   \<and> isabs (cwd empty_fs) \<and> writable empty_fs ''/home/user/deck.pptx''
   \<and> (\<exists>s. snd (add_content_slide blank_generator ''Steps'' [''A'', ''B''] ''numbered'') = Inr s
         \<and> map p_text (frame (shapes s) 1) = [''1. A'', ''2. B''])
   \<and> files (snd (fst (save
        (fst (add_content_slide blank_generator ''Steps'' [''A'', ''B''] ''numbered''))
        empty_fs ''deck''))) ''/home/user/deck.pptx'' =
      Some (PptxFile (presentation
        (fst (add_content_slide blank_generator ''Steps'' [''A'', ''B''] ''numbered''))))"
proof -
  let ?r = "add_content_slide blank_generator ''Steps'' [''A'', ''B''] ''numbered''"
  have z: "0 \<in> set [0, 1::nat]" "1 \<in> set [0, 1::nat]"
    by simp_all
  from numbered_items_stored [OF blank_layout_1 z, of "''Steps''" "[''A'', ''B'']"
      empty_fs "''deck''"]
  obtain s where
    a: "?r = (blank_generator\<lparr>presentation :=
               (presentation blank_generator)\<lparr>slides :=
                  slides (presentation blank_generator) @ [s]\<rparr>\<rparr>, Inr s)"
    and n: "map p_text (frame (shapes s) 1) =
        (if [''A'', ''B''] = [] then [[]] else numbered [''A'', ''B''])"
    and sv: "isabs (cwd empty_fs) \<and> writable empty_fs (abspath empty_fs (pptx_name ''deck'')) \<longrightarrow>
        files (snd (fst (save (fst ?r) empty_fs ''deck''))) (abspath empty_fs (pptx_name ''deck'')) =
          Some (PptxFile (presentation (fst ?r)))"
    by blast
  have w: "writable empty_fs ''/home/user/deck.pptx''"
    by (simp add: empty_fs_def)
  have s: "snd ?r = Inr s"
    unfolding a by (rule snd_conv)
  have n': "map p_text (frame (shapes s) 1) = [''1. A'', ''2. B'']"
    unfolding n numbered_AB by simp
  have e: "\<exists>s. snd ?r = Inr s \<and> map p_text (frame (shapes s) 1) = [''1. A'', ''2. B'']"
  proof (intro exI conjI)
    show "snd ?r = Inr s" by (rule s)
    show "map p_text (frame (shapes s) 1) = [''1. A'', ''2. B'']" by (rule n')
  qed
  have "files (snd (fst (save (fst ?r) empty_fs ''deck''))) (abspath empty_fs (pptx_name ''deck'')) =
          Some (PptxFile (presentation (fst ?r)))"
    using sv cwd_empty_fs writable_deck by blast
  then have d: "files (snd (fst (save (fst ?r) empty_fs ''deck''))) ''/home/user/deck.pptx'' =
          Some (PptxFile (presentation (fst ?r)))"
    unfolding abspath_deck .
  from blank_layout_1 cwd_empty_fs w e d show ?thesis
    by (intro conjI)
qed

end
